theory Spec2Isabelle
  imports Complex_Main "HOL-Library.Code_Target_Numeral"
begin

section \<open>Python values and primitives used by the two engines\<close>

text \<open>
  The accuracy calculator (\<^verbatim>\<open>accuracy_calculator/calculate_accuracy.py\<close>) and the
  financial validator (\<^verbatim>\<open>financial_data_code_for_refernce/src/step5_validation.py\<close>)
  work on JSON-shaped Python values. This section models those values and the Python
  built-ins the two files call: \<^verbatim>\<open>float\<close>, \<^verbatim>\<open>str\<close>, \<^verbatim>\<open>==\<close>,
  \<^verbatim>\<open>str.replace\<close>, \<^verbatim>\<open>str.strip\<close>, \<^verbatim>\<open>str.lower\<close>, \<^verbatim>\<open>in\<close>, \<^verbatim>\<open>len\<close>.

  Scope of the model of the built-ins:
  \<^item> a Python \<^verbatim>\<open>str\<close> is a list of 8-bit characters (ASCII text; a character beyond
    ASCII appears as its UTF-8 bytes and is left alone by \<^verbatim>\<open>lower\<close> and \<^verbatim>\<open>strip\<close>);
  \<^item> a Python \<^verbatim>\<open>float\<close> is an IEEE 754 binary64 number: a rational that is
    representable, or an infinity, or NaN; every operation rounds to nearest, ties to
    even. The sign of zero is not represented;
  \<^item> a Python \<^verbatim>\<open>dict\<close> is an association list in iteration order, each key once.
\<close>

subsection \<open>Binary64 floating point\<close>

datatype pyfloat = Fin rat | PInf | NInf | NaN

fun bitlen :: "nat \<Rightarrow> nat" where
  "bitlen n = (if n = 0 then 0 else Suc (bitlen (n div 2)))"

declare bitlen.simps [simp del]

definition pow2 :: "int \<Rightarrow> rat" where
  "pow2 e = (if 0 \<le> e then 2 ^ nat e else 1 / 2 ^ nat (- e))"

text \<open>\<open>ilog2 q\<close> is \<open>\<lfloor>log\<^sub>2 q\<rfloor>\<close> for a positive rational \<open>q\<close>.\<close>

definition ilog2 :: "rat \<Rightarrow> int" where
  "ilog2 q = (if 1 \<le> q then int (bitlen (nat \<lfloor>q\<rfloor>)) - 1
              else - int (bitlen (nat (\<lceil>1 / q\<rceil> - 1))))"

definition round_half_even :: "rat \<Rightarrow> int" where
  "round_half_even q =
     (let f = \<lfloor>q\<rfloor>; d = q - of_int f
      in if d < 1 / 2 then f
         else if 1 / 2 < d then f + 1
         else if even f then f else f + 1)"

text \<open>
  Rounding of an exact rational to binary64: 53 significant bits, least exponent
  \<open>-1074\<close> (subnormals), overflow to infinity from \<open>2\<^sup>1\<^sup>0\<^sup>2\<^sup>4 - 2\<^sup>9\<^sup>7\<^sup>0\<close> on.
\<close>

definition round_double :: "rat \<Rightarrow> pyfloat" where
  "round_double q =
     (if q = 0 then Fin 0
      else let a = \<bar>q\<bar>;
               e = max (ilog2 a - 52) (- 1074);
               m = round_half_even (a / pow2 e)
           in if 971 < e \<or> (e = 971 \<and> 2 ^ 53 \<le> m) then (if 0 < q then PInf else NInf)
              else Fin (sgn q * of_int m * pow2 e))"

fun fneg :: "pyfloat \<Rightarrow> pyfloat" where
  "fneg (Fin a) = Fin (- a)"
| "fneg PInf = NInf"
| "fneg NInf = PInf"
| "fneg NaN = NaN"

fun fadd :: "pyfloat \<Rightarrow> pyfloat \<Rightarrow> pyfloat" where
  "fadd (Fin a) (Fin b) = round_double (a + b)"
| "fadd NaN _ = NaN"
| "fadd _ NaN = NaN"
| "fadd PInf NInf = NaN"
| "fadd NInf PInf = NaN"
| "fadd PInf _ = PInf"
| "fadd NInf _ = NInf"
| "fadd _ PInf = PInf"
| "fadd _ NInf = NInf"

definition fsub :: "pyfloat \<Rightarrow> pyfloat \<Rightarrow> pyfloat" where
  "fsub x y = fadd x (fneg y)"

fun fsgn :: "pyfloat \<Rightarrow> int" where
  "fsgn (Fin a) = (if a < 0 then - 1 else if a = 0 then 0 else 1)"
| "fsgn PInf = 1"
| "fsgn NInf = - 1"
| "fsgn NaN = 0"

fun fmul :: "pyfloat \<Rightarrow> pyfloat \<Rightarrow> pyfloat" where
  "fmul (Fin a) (Fin b) = round_double (a * b)"
| "fmul NaN _ = NaN"
| "fmul _ NaN = NaN"
| "fmul x y = (if fsgn x * fsgn y = 0 then NaN else if 0 < fsgn x * fsgn y then PInf else NInf)"

fun fabs :: "pyfloat \<Rightarrow> pyfloat" where
  "fabs (Fin a) = Fin \<bar>a\<bar>"
| "fabs PInf = PInf"
| "fabs NInf = PInf"
| "fabs NaN = NaN"

text \<open>Python's \<^verbatim>\<open><\<close> on floats: every comparison with NaN is false.\<close>

fun flt :: "pyfloat \<Rightarrow> pyfloat \<Rightarrow> bool" where
  "flt (Fin a) (Fin b) = (a < b)"
| "flt NaN _ = False"
| "flt _ NaN = False"
| "flt NInf NInf = False"
| "flt NInf _ = True"
| "flt _ NInf = False"
| "flt PInf _ = False"
| "flt _ PInf = True"

definition fgt :: "pyfloat \<Rightarrow> pyfloat \<Rightarrow> bool" where
  "fgt x y = flt y x"

text \<open>Truthiness of a float (\<^verbatim>\<open>bool(x)\<close>): false for zero only.\<close>

definition ftruthy :: "pyfloat \<Rightarrow> bool" where
  "ftruthy x = (x \<noteq> Fin 0)"

subsection \<open>Strings\<close>

definition is_digit :: "char \<Rightarrow> bool" where
  "is_digit c = (c \<in> set ''0123456789'')"

definition digit_val :: "char \<Rightarrow> nat" where
  "digit_val c = of_char c - 48"

definition digits_val :: "string \<Rightarrow> nat" where
  "digits_val ds = foldl (\<lambda>a c. 10 * a + digit_val c) 0 ds"

definition digit_char :: "nat \<Rightarrow> char" where
  "digit_char d = ''0123456789abcdef'' ! (d mod 16)"

fun digits_of :: "nat \<Rightarrow> string" where
  "digits_of n = (if n = 0 then [] else digits_of (n div 10) @ [digit_char (n mod 10)])"

declare digits_of.simps [simp del]

text \<open>\<^verbatim>\<open>str(n)\<close> for an integer.\<close>

definition str_of_nat :: "nat \<Rightarrow> string" where
  "str_of_nat n = (if n = 0 then ''0'' else digits_of n)"

definition str_of_int :: "int \<Rightarrow> string" where
  "str_of_int i = (if i < 0 then CHR ''-'' # str_of_nat (nat (- i)) else str_of_nat (nat i))"

text \<open>
  The characters \<^verbatim>\<open>float()\<close> skips at both ends of its argument, and the larger set
  that \<^verbatim>\<open>str.strip()\<close> removes.
\<close>

definition float_space :: "char \<Rightarrow> bool" where
  "float_space c = (c \<in> set [CHR 0x09, CHR 0x0A, CHR 0x0B, CHR 0x0C, CHR 0x0D, CHR 0x20])"

definition str_space :: "char \<Rightarrow> bool" where
  "str_space c = (float_space c \<or> c \<in> set [CHR 0x1C, CHR 0x1D, CHR 0x1E, CHR 0x1F])"

definition strip :: "string \<Rightarrow> string" where
  "strip s = rev (dropWhile str_space (rev (dropWhile str_space s)))"

definition lower_char :: "char \<Rightarrow> char" where
  "lower_char c =
     (case map_of (zip ''ABCDEFGHIJKLMNOPQRSTUVWXYZ'' ''abcdefghijklmnopqrstuvwxyz'') c of
        None \<Rightarrow> c | Some l \<Rightarrow> l)"

definition lower :: "string \<Rightarrow> string" where
  "lower s = map lower_char s"

text \<open>\<^verbatim>\<open>s.replace(c, '')\<close> for a one-character \<^verbatim>\<open>c\<close>.\<close>

definition remove_char :: "char \<Rightarrow> string \<Rightarrow> string" where
  "remove_char c s = filter (\<lambda>x. x \<noteq> c) s"

fun starts_with :: "string \<Rightarrow> string \<Rightarrow> bool" where
  "starts_with s [] = True"
| "starts_with [] (p # ps) = False"
| "starts_with (c # cs) (p # ps) = (c = p \<and> starts_with cs ps)"

text \<open>\<^verbatim>\<open>sub in s\<close> for two strings.\<close>

fun str_in :: "string \<Rightarrow> string \<Rightarrow> bool" where
  "str_in sub [] = (sub = [])"
| "str_in sub (c # cs) = (starts_with (c # cs) sub \<or> str_in sub cs)"

fun join :: "string \<Rightarrow> string list \<Rightarrow> string" where
  "join sep [] = []"
| "join sep [x] = x"
| "join sep (x # y # r) = x @ sep @ join sep (y # r)"

subsection \<open>\<^verbatim>\<open>float(s)\<close>: parsing a string\<close>

definition pow10 :: "int \<Rightarrow> rat" where
  "pow10 e = (if 0 \<le> e then 10 ^ nat e else 1 / 10 ^ nat (- e))"

text \<open>
  An underscore is accepted only between two digits (\<open>prev\<close> is the character before).
\<close>

fun underscores_ok :: "char \<Rightarrow> string \<Rightarrow> bool" where
  "underscores_ok prev [] = (prev \<noteq> CHR ''_'')"
| "underscores_ok prev (c # cs) =
     ((if c = CHR ''_'' then is_digit prev
       else if prev = CHR ''_'' then is_digit c else True)
      \<and> underscores_ok c cs)"

definition parse_exponent :: "string \<Rightarrow> int option" where
  "parse_exponent r =
     (case r of
        [] \<Rightarrow> Some 0
      | c # t \<Rightarrow>
          if c = CHR ''e'' \<or> c = CHR ''E'' then
            (let neg = (case t of [] \<Rightarrow> False | d # _ \<Rightarrow> d = CHR ''-'');
                 ds = (case t of [] \<Rightarrow> []
                       | d # u \<Rightarrow> if d = CHR ''-'' \<or> d = CHR ''+'' then u else t)
             in if ds \<noteq> [] \<and> list_all is_digit ds
                then Some (if neg then - int (digits_val ds) else int (digits_val ds))
                else None)
          else None)"

definition parse_decimal :: "string \<Rightarrow> rat option" where
  "parse_decimal u =
     (let ip = takeWhile is_digit u;
          r1 = dropWhile is_digit u;
          has_point = (case r1 of [] \<Rightarrow> False | c # _ \<Rightarrow> c = CHR ''.'');
          fp = (if has_point then takeWhile is_digit (tl r1) else []);
          r2 = (if has_point then dropWhile is_digit (tl r1) else r1)
      in if ip = [] \<and> fp = [] then None
         else case parse_exponent r2 of
                None \<Rightarrow> None
              | Some ex \<Rightarrow> Some (of_nat (digits_val (ip @ fp)) * pow10 (ex - int (length fp))))"

text \<open>
  \<^verbatim>\<open>float(s)\<close>; \<open>None\<close> stands for \<^verbatim>\<open>ValueError\<close>. The value of a decimal
  literal is correctly rounded.
\<close>

definition float_of_str :: "string \<Rightarrow> pyfloat option" where
  "float_of_str s0 =
     (let s = rev (dropWhile float_space (rev (dropWhile float_space s0)))
      in if underscores_ok (CHR 0x00) s then
           (let t = remove_char (CHR ''_'') s;
                neg = (case t of [] \<Rightarrow> False | c # _ \<Rightarrow> c = CHR ''-'');
                u = (case t of [] \<Rightarrow> []
                     | c # r \<Rightarrow> if c = CHR ''-'' \<or> c = CHR ''+'' then r else t);
                l = lower u
            in if l = ''inf'' \<or> l = ''infinity'' then Some (if neg then NInf else PInf)
               else if l = ''nan'' then Some NaN
               else case parse_decimal u of
                      None \<Rightarrow> None
                    | Some q \<Rightarrow> Some (round_double (if neg then - q else q)))
         else None)"

subsection \<open>\<^verbatim>\<open>repr(x)\<close> of a float\<close>

fun declen :: "nat \<Rightarrow> nat" where
  "declen n = (if n = 0 then 0 else Suc (declen (n div 10)))"

declare declen.simps [simp del]

text \<open>\<open>ilog10 q\<close> is \<open>\<lfloor>log\<^sub>1\<^sub>0 q\<rfloor>\<close> for a positive rational \<open>q\<close>.\<close>

definition ilog10 :: "rat \<Rightarrow> int" where
  "ilog10 q = (if 1 \<le> q then int (declen (nat \<lfloor>q\<rfloor>)) - 1
               else - int (declen (nat (\<lceil>1 / q\<rceil> - 1))))"

text \<open>
  Python prints the shortest digit string that reads back as the same float and, among
  those, the one nearest to it. \<open>candidate a n\<close> looks among the decimals with \<open>n\<close>
  significant digits: only the two neighbours of \<open>a\<close> can qualify. The result is the
  digit string as a number and the power of ten it is scaled by.
\<close>

definition candidate :: "rat \<Rightarrow> nat \<Rightarrow> (nat \<times> int) option" where
  "candidate a n =
     (let s = ilog10 a - int n + 1;
          lo = nat \<lfloor>a / pow10 s\<rfloor>;
          hi = lo + 1;
          lo_ok = (round_double (of_nat lo * pow10 s) = Fin a);
          hi_ok = (round_double (of_nat hi * pow10 s) = Fin a);
          dlo = a - of_nat lo * pow10 s;
          dhi = of_nat hi * pow10 s - a
      in if lo_ok \<and> hi_ok then
           (if dlo < dhi then Some (lo, s)
            else if dhi < dlo then Some (hi, s)
            else if even lo then Some (lo, s) else Some (hi, s))
         else if lo_ok then Some (lo, s)
         else if hi_ok then Some (hi, s)
         else None)"

function shortest_digits :: "rat \<Rightarrow> nat \<Rightarrow> nat \<times> int" where
  "shortest_digits a n =
     (if 17 \<le> n then (nat (round_half_even (a / pow10 (ilog10 a - 16))), ilog10 a - 16)
      else case candidate a n of
             Some r \<Rightarrow> r
           | None \<Rightarrow> shortest_digits a (Suc n))"
  by pat_completeness auto
termination
  by (relation "measure (\<lambda>(a, n). 17 - n)") auto

declare shortest_digits.simps [simp del]

function strip_zeros :: "nat \<Rightarrow> int \<Rightarrow> nat \<times> int" where
  "strip_zeros d s =
     (if d \<noteq> 0 \<and> d mod 10 = 0 then strip_zeros (d div 10) (s + 1) else (d, s))"
  by pat_completeness auto
termination
  by (relation "measure (\<lambda>(d, s). d)") auto

declare strip_zeros.simps [simp del]

definition float_repr_fin :: "rat \<Rightarrow> string" where
  "float_repr_fin a =
     (let (d, s) = (case shortest_digits a 1 of (d0, s0) \<Rightarrow> strip_zeros d0 s0);
          ds = digits_of d;
          n = int (length ds);
          decpt = s + n
      in if - 4 < decpt \<and> decpt \<le> 16 then
           (if decpt \<le> 0 then ''0.'' @ replicate (nat (- decpt)) (CHR ''0'') @ ds
            else if n \<le> decpt then ds @ replicate (nat (decpt - n)) (CHR ''0'') @ ''.0''
            else take (nat decpt) ds @ ''.'' @ drop (nat decpt) ds)
         else
           (let ex = decpt - 1;
                es = str_of_nat (nat \<bar>ex\<bar>)
            in take 1 ds @ (if n = 1 then [] else ''.'' @ drop 1 ds) @ ''e''
               @ (if ex < 0 then ''-'' else ''+'')
               @ (if length es < 2 then ''0'' @ es else es)))"

fun float_repr :: "pyfloat \<Rightarrow> string" where
  "float_repr (Fin a) =
     (if a = 0 then ''0.0''
      else if a < 0 then ''-'' @ float_repr_fin (- a)
      else float_repr_fin a)"
| "float_repr PInf = ''inf''"
| "float_repr NInf = ''-inf''"
| "float_repr NaN = ''nan''"

text \<open>
  \<^verbatim>\<open>float(n)\<close> for an integer: correctly rounded, and \<^verbatim>\<open>OverflowError\<close> (here
  \<open>None\<close>) when the integer is beyond the range of a float.
\<close>

definition float_of_int :: "int \<Rightarrow> pyfloat option" where
  "float_of_int i = (case round_double (of_int i) of Fin a \<Rightarrow> Some (Fin a) | _ \<Rightarrow> None)"

subsection \<open>JSON-shaped values\<close>

datatype json =
    JNull
  | JBool bool
  | JInt int
  | JFloat pyfloat
  | JStr string
  | JList "json list"
  | JDict "(string \<times> json) list"

text \<open>\<^verbatim>\<open>type(v).__name__\<close>, as it appears in the text of an exception.\<close>

fun type_name :: "json \<Rightarrow> string" where
  "type_name JNull = ''NoneType''"
| "type_name (JBool _) = ''bool''"
| "type_name (JInt _) = ''int''"
| "type_name (JFloat _) = ''float''"
| "type_name (JStr _) = ''str''"
| "type_name (JList _) = ''list''"
| "type_name (JDict _) = ''dict''"

text \<open>\<^verbatim>\<open>repr(s)\<close> of a string: the quote is chosen, then each character escaped.\<close>

definition repr_char :: "char \<Rightarrow> char \<Rightarrow> string" where
  "repr_char q c =
     (if c = q \<or> c = CHR 0x5C then [CHR 0x5C, c]
      else if c = CHR 0x09 then [CHR 0x5C, CHR ''t'']
      else if c = CHR 0x0A then [CHR 0x5C, CHR ''n'']
      else if c = CHR 0x0D then [CHR 0x5C, CHR ''r'']
      else if (of_char c :: nat) < 32 \<or> c = CHR 0x7F
        then [CHR 0x5C, CHR ''x'', digit_char (of_char c div 16), digit_char (of_char c mod 16)]
      else [c])"

definition str_repr :: "string \<Rightarrow> string" where
  "str_repr s =
     (let q = (if CHR 0x27 \<in> set s \<and> CHR 0x22 \<notin> set s then CHR 0x22 else CHR 0x27)
      in [q] @ concat (map (repr_char q) s) @ [q])"

fun py_repr :: "json \<Rightarrow> string"
  and py_repr_list :: "json list \<Rightarrow> string list"
  and py_repr_items :: "(string \<times> json) list \<Rightarrow> string list" where
  "py_repr JNull = ''None''"
| "py_repr (JBool b) = (if b then ''True'' else ''False'')"
| "py_repr (JInt i) = str_of_int i"
| "py_repr (JFloat x) = float_repr x"
| "py_repr (JStr s) = str_repr s"
| "py_repr (JList xs) = ''['' @ join '', '' (py_repr_list xs) @ '']''"
| "py_repr (JDict kvs) = ''{'' @ join '', '' (py_repr_items kvs) @ ''}''"
| "py_repr_list [] = []"
| "py_repr_list (x # xs) = py_repr x # py_repr_list xs"
| "py_repr_items [] = []"
| "py_repr_items ((k, v) # kvs) = (str_repr k @ '': '' @ py_repr v) # py_repr_items kvs"

text \<open>\<^verbatim>\<open>str(v)\<close>, which is also what an f-string field \<^verbatim>\<open>{v}\<close> inserts.\<close>

fun py_str :: "json \<Rightarrow> string" where
  "py_str (JStr s) = s"
| "py_str v = py_repr v"

text \<open>
  \<^verbatim>\<open>a == b\<close>. Numbers (booleans included) compare by exact value across \<^verbatim>\<open>bool\<close>,
  \<^verbatim>\<open>int\<close> and \<^verbatim>\<open>float\<close>; NaN equals nothing; dictionaries compare as mappings.
\<close>

fun num_val :: "json \<Rightarrow> pyfloat option" where
  "num_val (JBool b) = Some (Fin (if b then 1 else 0))"
| "num_val (JInt i) = Some (Fin (of_int i))"
| "num_val (JFloat x) = Some x"
| "num_val _ = None"

fun py_eq :: "json \<Rightarrow> json \<Rightarrow> bool"
  and py_eq_list :: "json list \<Rightarrow> json list \<Rightarrow> bool"
  and py_eq_items :: "(string \<times> json) list \<Rightarrow> (string \<times> json) list \<Rightarrow> bool" where
  "py_eq JNull b = (b = JNull)"
| "py_eq (JStr s) b = (b = JStr s)"
| "py_eq (JList xs) b = (case b of JList ys \<Rightarrow> py_eq_list xs ys | _ \<Rightarrow> False)"
| "py_eq (JDict kvs) b =
     (case b of JDict kws \<Rightarrow> length kvs = length kws \<and> py_eq_items kvs kws | _ \<Rightarrow> False)"
| "py_eq (JBool x) b =
     (case num_val b of None \<Rightarrow> False | Some y \<Rightarrow> Fin (if x then 1 else 0) = y)"
| "py_eq (JInt i) b = (case num_val b of None \<Rightarrow> False | Some y \<Rightarrow> Fin (of_int i) = y)"
| "py_eq (JFloat x) b = (case num_val b of None \<Rightarrow> False | Some y \<Rightarrow> x = y \<and> x \<noteq> NaN)"
| "py_eq_list [] ys = (ys = [])"
| "py_eq_list (x # xs) ys = (case ys of [] \<Rightarrow> False | y # r \<Rightarrow> py_eq x y \<and> py_eq_list xs r)"
| "py_eq_items [] kws = True"
| "py_eq_items ((k, v) # kvs) kws =
     (case map_of kws k of None \<Rightarrow> False | Some w \<Rightarrow> py_eq v w \<and> py_eq_items kvs kws)"

text \<open>\<^verbatim>\<open>d.get(k, default)\<close> and \<^verbatim>\<open>k in d\<close> for a dictionary.\<close>

definition dict_get :: "(string \<times> json) list \<Rightarrow> string \<Rightarrow> json \<Rightarrow> json" where
  "dict_get d k dflt = (case map_of d k of None \<Rightarrow> dflt | Some v \<Rightarrow> v)"

definition dict_has :: "(string \<times> json) list \<Rightarrow> string \<Rightarrow> bool" where
  "dict_has d k = (case map_of d k of None \<Rightarrow> False | Some v \<Rightarrow> True)"

fun is_dict :: "json \<Rightarrow> bool" where
  "is_dict (JDict _) = True"
| "is_dict _ = False"

fun is_list :: "json \<Rightarrow> bool" where
  "is_list (JList _) = True"
| "is_list _ = False"

section \<open>The accuracy calculator\<close>

text \<open>
  Source: class \<^verbatim>\<open>AccuracyCalculator\<close> in \<^verbatim>\<open>accuracy_calculator/calculate_accuracy.py\<close>.
  A method \<^verbatim>\<open>_name\<close> of the source is \<open>name\<close> here. The object's \<^verbatim>\<open>self.results\<close>
  is passed through the traversal and returned.
\<close>

record comparison =
  field_path :: string
  extracted_value :: json
  ground_truth_value :: json
  status :: string

record results =
  total_fields :: nat
  correct_fields :: nat
  incorrect_fields :: nat
  missing_fields :: nat
  accuracy_percentage :: pyfloat
  field_details :: "comparison list"

text \<open>\<^verbatim>\<open>v is None or v == ""\<close>\<close>

definition none_or_empty :: "json \<Rightarrow> bool" where
  "none_or_empty v = (v = JNull \<or> py_eq v (JStr []))"

definition values_match :: "json \<Rightarrow> json \<Rightarrow> bool" where
  "values_match val1 val2 =
     (let str_match = (lower (strip (py_str val1)) = lower (strip (py_str val2)))
      in if py_eq val1 val2 then True
         else case val1 of
                JStr s1 \<Rightarrow>
                  (case val2 of
                     JStr s2 \<Rightarrow>
                       (case float_of_str (remove_char (CHR '','') s1) of
                          None \<Rightarrow> str_match
                        | Some num1 \<Rightarrow>
                            (case float_of_str (remove_char (CHR '','') s2) of
                               None \<Rightarrow> str_match
                             | Some num2 \<Rightarrow>
                                 flt (fabs (fsub num1 num2)) (round_double (1 / 100))))
                   | _ \<Rightarrow> str_match)
              | _ \<Rightarrow> str_match)"

definition compare_values :: "json \<Rightarrow> json \<Rightarrow> string \<Rightarrow> comparison" where
  "compare_values extracted ground_truth path =
     (let result = \<lparr>field_path = path, extracted_value = extracted,
                     ground_truth_value = ground_truth, status = ''unknown''\<rparr>
      in if none_or_empty ground_truth then
           (if none_or_empty extracted then result\<lparr>status := ''correct_null''\<rparr>
            else result\<lparr>status := ''false_positive''\<rparr>)
         else if none_or_empty extracted then result\<lparr>status := ''missing''\<rparr>
         else if values_match extracted ground_truth then result\<lparr>status := ''correct''\<rparr>
         else result\<lparr>status := ''incorrect''\<rparr>)"

text \<open>\<^verbatim>\<open>f.get('value') if isinstance(f, dict) else f\<close>\<close>

fun value_of_field :: "json \<Rightarrow> json" where
  "value_of_field (JDict d) = dict_get d ''value'' JNull"
| "value_of_field v = v"

definition compare_field_structure :: "json \<Rightarrow> json \<Rightarrow> string \<Rightarrow> comparison" where
  "compare_field_structure extracted_field ground_truth_field path =
     compare_values (value_of_field extracted_field) (value_of_field ground_truth_field) path"

definition record_comparison :: "comparison \<Rightarrow> results \<Rightarrow> results" where
  "record_comparison c res =
     (let r = res\<lparr>total_fields := total_fields res + 1,
                  field_details := field_details res @ [c]\<rparr>
      in if status c = ''correct'' \<or> status c = ''correct_null''
           then r\<lparr>correct_fields := correct_fields r + 1\<rparr>
         else if status c = ''incorrect'' \<or> status c = ''false_positive''
           then r\<lparr>incorrect_fields := incorrect_fields r + 1\<rparr>
         else if status c = ''missing''
           then r\<lparr>missing_fields := missing_fields r + 1\<rparr>
         else r)"

definition skip_fields :: "string list" where
  "skip_fields = [''extraction_timestamp'', ''source_file'', ''document_type'']"

text \<open>
  \<^verbatim>\<open>isinstance(g, dict) and 'value' in g\<close>: the test that makes a ground-truth node a
  field with the \<^verbatim>\<open>{value, confidence}\<close> structure.
\<close>

fun is_field :: "json \<Rightarrow> bool" where
  "is_field (JDict d) = dict_has d ''value''"
| "is_field _ = False"

text \<open>
  \<^verbatim>\<open>traverse_and_compare\<close>. The loop over the keys of a ground-truth dictionary is
  \<open>traverse_keys\<close>, which walks the items \<open>(key, ground_truth[key])\<close> in order; the loop
  over a ground-truth list is \<open>traverse_items\<close>, with the running index.
\<close>

fun traverse_and_compare :: "json \<Rightarrow> json \<Rightarrow> string \<Rightarrow> results \<Rightarrow> results"
  and traverse_keys ::
    "(string \<times> json) list \<Rightarrow> (string \<times> json) list \<Rightarrow> string \<Rightarrow> results \<Rightarrow> results"
  and traverse_items :: "json list \<Rightarrow> json list \<Rightarrow> nat \<Rightarrow> string \<Rightarrow> results \<Rightarrow> results"
where
  "traverse_and_compare extracted (JDict g) path res =
     (case extracted of JDict e \<Rightarrow> traverse_keys e g path res | _ \<Rightarrow> res)"
| "traverse_and_compare extracted (JList g) path res =
     (case extracted of JList e \<Rightarrow> traverse_items e g 0 path res | _ \<Rightarrow> res)"
| "traverse_and_compare extracted JNull path res = res"
| "traverse_and_compare extracted (JBool _) path res = res"
| "traverse_and_compare extracted (JInt _) path res = res"
| "traverse_and_compare extracted (JFloat _) path res = res"
| "traverse_and_compare extracted (JStr _) path res = res"
| "traverse_keys e [] path res = res"
| "traverse_keys e ((key, gv) # rest) path res =
     (if key \<in> set skip_fields then traverse_keys e rest path res
      else
        (let current_path = (if path \<noteq> ''root'' then path @ ''.'' @ key else key)
         in if is_field gv then
              traverse_keys e rest path
                (record_comparison
                   (compare_field_structure
                      (dict_get e key (JDict [(''value'', JNull), (''confidence'', JFloat (Fin 0))]))
                      gv current_path)
                   res)
            else if is_dict gv \<or> is_list gv then
              traverse_keys e rest path
                (traverse_and_compare
                   (dict_get e key (if is_dict gv then JDict [] else JList []))
                   gv current_path res)
            else traverse_keys e rest path res))"
| "traverse_items e [] idx path res = res"
| "traverse_items e (gt_item # rest) idx path res =
     (let current_path = path @ ''['' @ str_of_nat idx @ '']'';
          extracted_item = (if idx < length e then e ! idx else JDict [])
      in traverse_items e rest (idx + 1) path
           (traverse_and_compare extracted_item gt_item current_path res))"

definition init_results :: results where
  "init_results = \<lparr>total_fields = 0, correct_fields = 0, incorrect_fields = 0,
     missing_fields = 0, accuracy_percentage = Fin 0, field_details = []\<rparr>"

text \<open>
  \<^verbatim>\<open>calculate_accuracy\<close>, from the two loaded documents on (reading the two files is
  outside the model).
\<close>

definition calculate_accuracy :: "json \<Rightarrow> json \<Rightarrow> results" where
  "calculate_accuracy extracted_data ground_truth_data =
     (let r = traverse_and_compare extracted_data ground_truth_data ''root'' init_results
      in if 0 < total_fields r then
           r\<lparr>accuracy_percentage :=
               fmul (round_double (of_nat (correct_fields r) / of_nat (total_fields r))) (Fin 100)\<rparr>
         else r)"

section \<open>The financial validator\<close>

text \<open>
  Source: class \<^verbatim>\<open>FinancialValidator\<close> in
  \<^verbatim>\<open>financial_data_code_for_refernce/src/step5_validation.py\<close>. The object's two lists
  \<^verbatim>\<open>self.errors\<close> and \<^verbatim>\<open>self.warnings\<close> are the record \<open>validator\<close>, passed
  through the checks. A Python exception that leaves a function is the left summand of
  its result.
\<close>

datatype exn = AttributeError string | TypeError string | OverflowError string

fun exn_str :: "exn \<Rightarrow> string" where
  "exn_str (AttributeError m) = m"
| "exn_str (TypeError m) = m"
| "exn_str (OverflowError m) = m"

definition quoted :: "string \<Rightarrow> string" where
  "quoted s = [CHR 0x27] @ s @ [CHR 0x27]"

definition no_attribute :: "json \<Rightarrow> string \<Rightarrow> exn" where
  "no_attribute v a =
     AttributeError (quoted (type_name v) @ '' object has no attribute '' @ quoted a)"

definition then_do :: "exn + 'a \<Rightarrow> ('a \<Rightarrow> exn + 'b) \<Rightarrow> exn + 'b" where
  "then_do m f = (case m of Inl e \<Rightarrow> Inl e | Inr x \<Rightarrow> f x)"

text \<open>\<^verbatim>\<open>v.get(k, default)\<close>, \<^verbatim>\<open>v.items()\<close>, \<^verbatim>\<open>len(v)\<close>, \<^verbatim>\<open>k in v\<close>, \<^verbatim>\<open>v[k]\<close> for a
  string \<^verbatim>\<open>k\<close>, and \<^verbatim>\<open>for item in v\<close>, on any value.\<close>

fun py_get :: "json \<Rightarrow> string \<Rightarrow> json \<Rightarrow> exn + json" where
  "py_get (JDict d) k dflt = Inr (dict_get d k dflt)"
| "py_get v k dflt = Inl (no_attribute v ''get'')"

fun py_items :: "json \<Rightarrow> exn + (string \<times> json) list" where
  "py_items (JDict d) = Inr d"
| "py_items v = Inl (no_attribute v ''items'')"

fun py_len :: "json \<Rightarrow> exn + nat" where
  "py_len (JStr s) = Inr (length s)"
| "py_len (JList xs) = Inr (length xs)"
| "py_len (JDict d) = Inr (length d)"
| "py_len v = Inl (TypeError (''object of type '' @ quoted (type_name v) @ '' has no len()''))"

fun py_contains :: "string \<Rightarrow> json \<Rightarrow> exn + bool" where
  "py_contains k (JDict d) = Inr (dict_has d k)"
| "py_contains k (JStr s) = Inr (str_in k s)"
| "py_contains k (JList xs) = Inr (list_ex (\<lambda>x. py_eq x (JStr k)) xs)"
| "py_contains k v =
     Inl (TypeError (''argument of type '' @ quoted (type_name v) @ '' is not iterable''))"

fun py_index :: "json \<Rightarrow> string \<Rightarrow> exn + json" where
  "py_index (JDict d) k = Inr (dict_get d k JNull)"
| "py_index (JStr s) k = Inl (TypeError ''string indices must be integers'')"
| "py_index (JList xs) k = Inl (TypeError ''list indices must be integers or slices, not str'')"
| "py_index v k = Inl (TypeError (quoted (type_name v) @ '' object is not subscriptable''))"

fun py_iter :: "json \<Rightarrow> exn + json list" where
  "py_iter (JList xs) = Inr xs"
| "py_iter (JStr s) = Inr (map (\<lambda>c. JStr [c]) s)"
| "py_iter (JDict d) = Inr (map (\<lambda>kv. JStr (fst kv)) d)"
| "py_iter v = Inl (TypeError (quoted (type_name v) @ '' object is not iterable''))"

record validator =
  errors :: "string list"
  warnings :: "string list"

text \<open>
  \<^verbatim>\<open>_extract_numeric_value\<close>: the first entry of the years dictionary that gives a
  number; \<open>None\<close> is Python's \<^verbatim>\<open>None\<close>. A boolean is an \<^verbatim>\<open>int\<close> for
  \<^verbatim>\<open>isinstance\<close>.
\<close>

fun first_numeric :: "(string \<times> json) list \<Rightarrow> exn + pyfloat option" where
  "first_numeric [] = Inr None"
| "first_numeric ((year, v) # rest) =
     (if v = JNull \<or> py_eq v (JStr []) then first_numeric rest
      else case v of
             JBool b \<Rightarrow> Inr (Some (Fin (if b then 1 else 0)))
           | JInt i \<Rightarrow>
               (case float_of_int i of
                  None \<Rightarrow> Inl (OverflowError ''int too large to convert to float'')
                | Some x \<Rightarrow> Inr (Some x))
           | JFloat x \<Rightarrow> Inr (Some x)
           | JStr s \<Rightarrow>
               (case float_of_str (remove_char (CHR '' '') (remove_char (CHR '','') s)) of
                  None \<Rightarrow> first_numeric rest
                | Some x \<Rightarrow> Inr (Some x))
           | _ \<Rightarrow> first_numeric rest)"

definition extract_numeric_value :: "json \<Rightarrow> exn + pyfloat option" where
  "extract_numeric_value years_dict = then_do (py_items years_dict) first_numeric"

text \<open>\<^verbatim>\<open>_is_numeric\<close>\<close>

fun is_numeric :: "json \<Rightarrow> bool" where
  "is_numeric (JBool _) = True"
| "is_numeric (JInt _) = True"
| "is_numeric (JFloat _) = True"
| "is_numeric (JStr s) =
     (case float_of_str (strip (remove_char (CHR '' '') (remove_char (CHR '','') s))) of
        None \<Rightarrow> False | Some x \<Rightarrow> True)"
| "is_numeric _ = False"

subsection \<open>Check 1: the accounting equation\<close>

text \<open>The text of the error; the sign between the two sides is U+2260 in UTF-8.\<close>

definition equation_failed_message :: "pyfloat \<Rightarrow> pyfloat \<Rightarrow> pyfloat \<Rightarrow> string" where
  "equation_failed_message assets_total liab_total equity_total =
     ''Accounting equation failed: Assets ('' @ float_repr assets_total @ '') ''
     @ [CHR 0xE2, CHR 0x89, CHR 0xA0]
     @ '' Liabilities ('' @ float_repr liab_total @ '') + Equity (''
     @ float_repr equity_total @ '')''"

text \<open>The body of the \<^verbatim>\<open>try\<close> block.\<close>

definition accounting_equation_body :: "(string \<times> json) list \<Rightarrow> validator \<Rightarrow> exn + validator" where
  "accounting_equation_body mapped_data st =
     then_do (py_get (dict_get mapped_data ''AssetsTotal'' (JDict [])) ''years'' (JDict []))
       (\<lambda>assets_years. then_do (extract_numeric_value assets_years)
       (\<lambda>assets_total.
     then_do (py_get (dict_get mapped_data ''LiabilitiesTotal'' (JDict [])) ''years'' (JDict []))
       (\<lambda>liab_years. then_do (extract_numeric_value liab_years)
       (\<lambda>liab_total.
     then_do (py_get (dict_get mapped_data ''Equity'' (JDict [])) ''TotalEquity'' (JDict []))
       (\<lambda>total_equity. then_do (py_get total_equity ''years'' (JDict []))
       (\<lambda>equity_years. then_do (extract_numeric_value equity_years)
       (\<lambda>equity_total.
          case assets_total of
            None \<Rightarrow> Inr (st\<lparr>warnings := warnings st
                         @ [''Cannot validate accounting equation - missing total values'']\<rparr>)
          | Some a \<Rightarrow>
              (case liab_total of
                 None \<Rightarrow> Inr (st\<lparr>warnings := warnings st
                              @ [''Cannot validate accounting equation - missing total values'']\<rparr>)
               | Some l \<Rightarrow>
                   (case equity_total of
                      None \<Rightarrow> Inr (st\<lparr>warnings := warnings st
                                   @ [''Cannot validate accounting equation - missing total values'']\<rparr>)
                    | Some q \<Rightarrow>
                        (let expected_assets = fadd l q
                         in if fgt (fabs (fsub a expected_assets)) (Fin 1)
                            then Inr (st\<lparr>errors := errors st @ [equation_failed_message a l q]\<rparr>)
                            else Inr st))))))))))"

definition validate_accounting_equation :: "(string \<times> json) list \<Rightarrow> validator \<Rightarrow> validator" where
  "validate_accounting_equation mapped_data st =
     (case accounting_equation_body mapped_data st of
        Inl e \<Rightarrow> st\<lparr>warnings := warnings st
                   @ [''Error validating accounting equation: '' @ exn_str e]\<rparr>
      | Inr st' \<Rightarrow> st')"

subsection \<open>Check 2: numeric values\<close>

definition non_numeric_message :: "string \<Rightarrow> string \<Rightarrow> string \<Rightarrow> json \<Rightarrow> string" where
  "non_numeric_message section field_name year v =
     section @ ''.'' @ field_name @ '' has non-numeric value for '' @ year @ '': ''
     @ quoted (py_str v)"

text \<open>The three nested loops, innermost first: over the years of a field, over the
  fields of a section, over the sections.\<close>

fun numeric_years :: "string \<Rightarrow> string \<Rightarrow> (string \<times> json) list \<Rightarrow> validator \<Rightarrow> validator" where
  "numeric_years section field_name [] st = st"
| "numeric_years section field_name ((year, v) # rest) st =
     (if v = JNull \<or> py_eq v (JStr []) then numeric_years section field_name rest st
      else if is_numeric v then numeric_years section field_name rest st
      else numeric_years section field_name rest
             (st\<lparr>errors := errors st @ [non_numeric_message section field_name year v]\<rparr>))"

fun numeric_fields :: "string \<Rightarrow> (string \<times> json) list \<Rightarrow> validator \<Rightarrow> exn + validator" where
  "numeric_fields section [] st = Inr st"
| "numeric_fields section ((field_name, field_obj) # rest) st =
     (if is_dict field_obj then
        then_do (py_get field_obj ''years'' (JDict []))
          (\<lambda>years. then_do (py_items years)
          (\<lambda>year_items.
             numeric_fields section rest (numeric_years section field_name year_items st)))
      else numeric_fields section rest st)"

fun numeric_sections :: "(string \<times> json) list \<Rightarrow> string list \<Rightarrow> validator \<Rightarrow> exn + validator" where
  "numeric_sections mapped_data [] st = Inr st"
| "numeric_sections mapped_data (section # rest) st =
     (if dict_has mapped_data section then
        then_do (py_items (dict_get mapped_data section JNull))
          (\<lambda>section_items. then_do (numeric_fields section section_items st)
          (\<lambda>st'. numeric_sections mapped_data rest st'))
      else numeric_sections mapped_data rest st)"

definition validate_numeric_values :: "(string \<times> json) list \<Rightarrow> validator \<Rightarrow> exn + validator" where
  "validate_numeric_values mapped_data st =
     numeric_sections mapped_data
       [''Equity'', ''NonCurrentLiabilities'', ''CurrentLiabilities'',
        ''NonCurrentAssets'', ''CurrentAssets'']
       st"

subsection \<open>Check 3: subtotals\<close>

text \<open>
  \<^verbatim>\<open>sum(xs)\<close> over the list of component values: it starts from the integer \<open>0\<close> and
  adds from the left, each addition rounded (CPython from 3.12 on compensates the
  rounding errors of a float sum; the two agree whenever no addition rounds, as for the
  whole amounts of the scenarios). Adding \<^verbatim>\<open>None\<close> raises \<^verbatim>\<open>TypeError\<close>. \<open>tn\<close> is the
  type of the running total, for the exception text.
\<close>

fun sum_from :: "string \<Rightarrow> pyfloat \<Rightarrow> pyfloat option list \<Rightarrow> exn + pyfloat" where
  "sum_from tn acc [] = Inr acc"
| "sum_from tn acc (None # rest) =
     Inl (TypeError (''unsupported operand type(s) for +: '' @ quoted tn @ '' and ''
                     @ quoted ''NoneType''))"
| "sum_from tn acc (Some x # rest) = sum_from ''float'' (fadd acc x) rest"

definition py_sum :: "pyfloat option list \<Rightarrow> exn + pyfloat" where
  "py_sum xs = sum_from ''int'' (Fin 0) xs"

text \<open>The list comprehension: one value for each sibling of \<^verbatim>\<open>TotalCurrentAssets\<close> that
  is a dictionary.\<close>

fun component_values :: "(string \<times> json) list \<Rightarrow> exn + pyfloat option list" where
  "component_values [] = Inr []"
| "component_values ((k, v) # rest) =
     (if k \<noteq> ''TotalCurrentAssets'' \<and> is_dict v then
        then_do (py_get v ''years'' (JDict []))
          (\<lambda>years. then_do (extract_numeric_value years)
          (\<lambda>x. then_do (component_values rest)
          (\<lambda>xs. Inr (x # xs))))
      else component_values rest)"

text \<open>The two numbers the check compares, as the source computes them from the
  \<^verbatim>\<open>CurrentAssets\<close> value.\<close>

definition subtotal_total :: "json \<Rightarrow> exn + pyfloat option" where
  "subtotal_total current_assets =
     then_do (py_index current_assets ''TotalCurrentAssets'')
       (\<lambda>t. then_do (py_get t ''years'' (JDict [])) extract_numeric_value)"

definition subtotal_components_sum :: "json \<Rightarrow> exn + pyfloat" where
  "subtotal_components_sum current_assets =
     then_do (py_items current_assets)
       (\<lambda>its. then_do (component_values its) py_sum)"

definition subtotal_message :: "pyfloat \<Rightarrow> pyfloat \<Rightarrow> string" where
  "subtotal_message t components_sum =
     ''CurrentAssets total ('' @ float_repr t @ '') differs from sum of components (''
     @ float_repr components_sum @ '')''"

text \<open>
  The condition of the warning,
  \<^verbatim>\<open>total and components_sum and abs(total - components_sum) > components_sum * 0.01\<close>,
  for a total that is a number (\<^verbatim>\<open>None\<close> is false already).
\<close>

definition subtotal_differs :: "pyfloat \<Rightarrow> pyfloat \<Rightarrow> bool" where
  "subtotal_differs t components_sum =
     (ftruthy t \<and> ftruthy components_sum
      \<and> fgt (fabs (fsub t components_sum)) (fmul components_sum (round_double (1 / 100))))"

definition validate_subtotals :: "(string \<times> json) list \<Rightarrow> validator \<Rightarrow> exn + validator" where
  "validate_subtotals mapped_data st =
     (let current_assets = dict_get mapped_data ''CurrentAssets'' (JDict [])
      in then_do (py_contains ''TotalCurrentAssets'' current_assets)
           (\<lambda>present.
              if present then
                then_do (subtotal_total current_assets)
                  (\<lambda>total_value. then_do (subtotal_components_sum current_assets)
                  (\<lambda>components_sum.
                     case total_value of
                       None \<Rightarrow> Inr st
                     | Some t \<Rightarrow>
                         if subtotal_differs t components_sum then
                           Inr (st\<lparr>warnings := warnings st
                                  @ [subtotal_message t components_sum]\<rparr>)
                         else Inr st))
              else Inr st))"

subsection \<open>Check 4: consistency across years\<close>

definition missing_years_message :: "string \<Rightarrow> string \<Rightarrow> nat \<Rightarrow> string" where
  "missing_years_message section field_name n =
     section @ ''.'' @ field_name @ '' missing data for '' @ str_of_nat n @ '' year(s)''"

fun consistency_fields ::
  "nat \<Rightarrow> string \<Rightarrow> (string \<times> json) list \<Rightarrow> validator \<Rightarrow> exn + validator" where
  "consistency_fields n section [] st = Inr st"
| "consistency_fields n section ((field_name, field_obj) # rest) st =
     (if is_dict field_obj then
        then_do (py_get field_obj ''years'' (JDict []))
          (\<lambda>year_values. then_do (py_len year_values)
          (\<lambda>m. consistency_fields n section rest
                 (if m < n
                  then st\<lparr>warnings := warnings st @ [missing_years_message section field_name (n - m)]\<rparr>
                  else st)))
      else consistency_fields n section rest st)"

fun consistency_sections ::
  "nat \<Rightarrow> (string \<times> json) list \<Rightarrow> string list \<Rightarrow> validator \<Rightarrow> exn + validator" where
  "consistency_sections n mapped_data [] st = Inr st"
| "consistency_sections n mapped_data (section # rest) st =
     (if dict_has mapped_data section then
        then_do (py_items (dict_get mapped_data section JNull))
          (\<lambda>section_items. then_do (consistency_fields n section section_items st)
          (\<lambda>st'. consistency_sections n mapped_data rest st'))
      else consistency_sections n mapped_data rest st)"

definition validate_consistency :: "(string \<times> json) list \<Rightarrow> validator \<Rightarrow> exn + validator" where
  "validate_consistency mapped_data st =
     then_do (py_get (dict_get mapped_data ''metadata'' (JDict [])) ''years'' (JList []))
       (\<lambda>years. then_do (py_len years)
       (\<lambda>n. if n < 2 then Inr st
            else consistency_sections n mapped_data [''Equity'', ''NonCurrentAssets''] st))"

subsection \<open>Check 5: unmapped items\<close>

definition critical_keywords :: "string list" where
  "critical_keywords = [''total'', ''assets'', ''liabilities'', ''equity'']"

definition high_number_message :: "nat \<Rightarrow> string" where
  "high_number_message n =
     ''High number of unmapped items ('' @ str_of_nat n @ ''). Check schema coverage.''"

definition unmapped_message :: "json \<Rightarrow> string" where
  "unmapped_message label_raw =
     ''Potentially important item unmapped: '' @ quoted (py_str label_raw)"

text \<open>\<^verbatim>\<open>s.lower()\<close> on any value: only a string has the method.\<close>

fun py_lower :: "json \<Rightarrow> exn + string" where
  "py_lower (JStr s) = Inr (lower s)"
| "py_lower v = Inl (no_attribute v ''lower'')"

fun unmapped_loop :: "json list \<Rightarrow> validator \<Rightarrow> exn + validator" where
  "unmapped_loop [] st = Inr st"
| "unmapped_loop (item # rest) st =
     then_do (py_get item ''label_raw'' (JStr []))
       (\<lambda>raw. then_do (py_lower raw)
       (\<lambda>label.
          if list_ex (\<lambda>keyword. str_in keyword label) critical_keywords then
            then_do (py_get item ''label_raw'' JNull)
              (\<lambda>shown. unmapped_loop rest
                          (st\<lparr>warnings := warnings st @ [unmapped_message shown]\<rparr>))
          else unmapped_loop rest st))"

definition validate_unmapped_items :: "(string \<times> json) list \<Rightarrow> validator \<Rightarrow> exn + validator" where
  "validate_unmapped_items mapped_data st =
     then_do (py_get (dict_get mapped_data ''unmapped_items'' (JDict [])) ''items'' (JList []))
       (\<lambda>unmapped. then_do (py_len unmapped)
       (\<lambda>n. then_do (py_iter unmapped)
       (\<lambda>its. unmapped_loop its
                (if 10 < n then st\<lparr>warnings := warnings st @ [high_number_message n]\<rparr>
                 else st))))"

subsection \<open>\<^verbatim>\<open>validate_mapped_data\<close>\<close>

record validation_result =
  accounting_equation_valid :: bool
  total_errors :: nat
  total_warnings :: nat
  errors :: "string list"
  warnings :: "string list"
  status :: string

definition validate_mapped_data :: "(string \<times> json) list \<Rightarrow> exn + validation_result" where
  "validate_mapped_data mapped_data =
     (let st0 = \<lparr>validator.errors = [], validator.warnings = []\<rparr>;
          st1 = validate_accounting_equation mapped_data st0
      in then_do (validate_numeric_values mapped_data st1)
           (\<lambda>st2. then_do (validate_subtotals mapped_data st2)
           (\<lambda>st3. then_do (validate_consistency mapped_data st3)
           (\<lambda>st4. then_do (validate_unmapped_items mapped_data st4)
           (\<lambda>st5.
              Inr \<lparr>accounting_equation_valid =
                     (length (filter (\<lambda>e. str_in ''accounting equation'' e) (validator.errors st5)) = 0),
                   total_errors = length (validator.errors st5),
                   total_warnings = length (validator.warnings st5),
                   errors = validator.errors st5,
                   warnings = validator.warnings st5,
                   status = (if length (validator.errors st5) = 0 then ''PASS'' else ''FAIL'')\<rparr>)))))"

section \<open>Predicates used in the statements\<close>

text \<open>
  The bookkeeping of \<^verbatim>\<open>_record_comparison\<close>: the counters agree with the recorded
  list, and every recorded status is one of the five that \<^verbatim>\<open>compare_values\<close> assigns.
\<close>

definition known_statuses :: "string list" where
  "known_statuses = [''correct'', ''correct_null'', ''incorrect'', ''missing'', ''false_positive'']"

definition tally_ok :: "results \<Rightarrow> bool" where
  "tally_ok r =
     (total_fields r = correct_fields r + incorrect_fields r + missing_fields r \<and>
      total_fields r = length (field_details r) \<and>
      correct_fields r =
        length (filter (\<lambda>c. comparison.status c = ''correct'' \<or> comparison.status c = ''correct_null'')
                  (field_details r)) \<and>
      incorrect_fields r =
        length (filter (\<lambda>c. comparison.status c = ''incorrect'' \<or> comparison.status c = ''false_positive'')
                  (field_details r)) \<and>
      missing_fields r =
        length (filter (\<lambda>c. comparison.status c = ''missing'') (field_details r)) \<and>
      list_all (\<lambda>c. comparison.status c \<in> set known_statuses) (field_details r))"

text \<open>
  A value tree is well formed when no dictionary in it has a key twice (an association
  list stands for a Python dictionary only then).
\<close>

fun wf_json :: "json \<Rightarrow> bool"
  and wf_items :: "(string \<times> json) list \<Rightarrow> bool"
  and wf_list :: "json list \<Rightarrow> bool" where
  "wf_json (JDict d) = (distinct (map fst d) \<and> wf_items d)"
| "wf_json (JList xs) = wf_list xs"
| "wf_json JNull = True"
| "wf_json (JBool _) = True"
| "wf_json (JInt _) = True"
| "wf_json (JFloat _) = True"
| "wf_json (JStr _) = True"
| "wf_items [] = True"
| "wf_items ((k, v) # kvs) = (wf_json v \<and> wf_items kvs)"
| "wf_list [] = True"
| "wf_list (x # xs) = (wf_json x \<and> wf_list xs)"

text \<open>
  A tree contains a leaf field when, going down through dictionaries (under keys that are
  not administrative) and through lists, one reaches a dictionary entry whose value is a
  dictionary with a \<^verbatim>\<open>value\<close> key.
\<close>

fun has_leaf_field :: "json \<Rightarrow> bool"
  and has_leaf_keys :: "(string \<times> json) list \<Rightarrow> bool"
  and has_leaf_items :: "json list \<Rightarrow> bool" where
  "has_leaf_field (JDict d) = has_leaf_keys d"
| "has_leaf_field (JList xs) = has_leaf_items xs"
| "has_leaf_field JNull = False"
| "has_leaf_field (JBool _) = False"
| "has_leaf_field (JInt _) = False"
| "has_leaf_field (JFloat _) = False"
| "has_leaf_field (JStr _) = False"
| "has_leaf_keys [] = False"
| "has_leaf_keys ((k, v) # kvs) =
     (if k \<in> set skip_fields then has_leaf_keys kvs
      else if is_field v then True
      else (has_leaf_field v \<or> has_leaf_keys kvs))"
| "has_leaf_items [] = False"
| "has_leaf_items (x # xs) = (has_leaf_field x \<or> has_leaf_items xs)"

definition all_correct :: "results \<Rightarrow> bool" where
  "all_correct r =
     (correct_fields r = total_fields r \<and>
      list_all (\<lambda>c. comparison.status c = ''correct'' \<or> comparison.status c = ''correct_null'')
        (field_details r))"

section \<open>Inputs of the scenarios\<close>

text \<open>A field whose \<^verbatim>\<open>years\<close> dictionary is \<^verbatim>\<open>{"2020": v}\<close>.\<close>

definition years_2020 :: "string \<Rightarrow> json" where
  "years_2020 v = JDict [(''years'', JDict [(''2020'', JStr v)])]"

text \<open>The schema of the accounting-equation scenario, with the given total equity.\<close>

definition equation_schema :: "string \<Rightarrow> (string \<times> json) list" where
  "equation_schema equity =
     [(''AssetsTotal'', years_2020 ''1000''),
      (''LiabilitiesTotal'', years_2020 ''600''),
      (''Equity'', JDict [(''TotalEquity'', years_2020 equity)])]"

text \<open>A \<^verbatim>\<open>CurrentAssets\<close> section with three components that sum to 1000 and the
  given total.\<close>

definition current_assets :: "string \<Rightarrow> (string \<times> json) list" where
  "current_assets t =
     [(''Inventories'', years_2020 ''500''),
      (''TradeReceivables'', years_2020 ''300''),
      (''CashAndCashEquivalents'', years_2020 ''200''),
      (''TotalCurrentAssets'', years_2020 t)]"

definition subtotal_schema :: "string \<Rightarrow> (string \<times> json) list" where
  "subtotal_schema t = [(''CurrentAssets'', JDict (current_assets t))]"

text \<open>
  A \<^verbatim>\<open>CurrentAssets\<close> section as the schema template leaves it when only the total was
  mapped: the component \<^verbatim>\<open>Inventories\<close> has an empty \<^verbatim>\<open>years\<close> dictionary.
\<close>

definition sparse_schema :: "(string \<times> json) list" where
  "sparse_schema =
     [(''CurrentAssets'',
       JDict [(''description'', JStr ''Short-term assets''),
              (''Inventories'',
               JDict [(''value'', JNull), (''confidence'', JFloat (Fin 0)),
                      (''years'', JDict []), (''notes'', JStr [])]),
              (''TotalCurrentAssets'', years_2020 ''1000'')])]"

definition unmapped_schema :: "(string \<times> json) list" where
  "unmapped_schema =
     [(''unmapped_items'',
       JDict [(''items'',
               JList [JDict [(''label_raw'', JStr ''Total Reserves'')],
                      JDict [(''label_raw'', JStr ''Miscellaneous Note 12'')]])])]"

definition empty_validator :: validator where
  "empty_validator = \<lparr>validator.errors = [], validator.warnings = []\<rparr>"

text \<open>
  An unmapped item as the mapper writes it: a dictionary whose \<^verbatim>\<open>label_raw\<close>, when
  present, is a string. \<open>label_of\<close> is that string (empty when absent).
\<close>

fun labelled :: "json \<Rightarrow> bool" where
  "labelled (JDict d) =
     (case map_of d ''label_raw'' of None \<Rightarrow> True | Some v \<Rightarrow> (case v of JStr s \<Rightarrow> True | _ \<Rightarrow> False))"
| "labelled _ = False"

fun label_of :: "json \<Rightarrow> string" where
  "label_of (JDict d) = (case map_of d ''label_raw'' of Some (JStr s) \<Rightarrow> s | _ \<Rightarrow> [])"
| "label_of _ = []"

text \<open>The label contains one of the critical keywords, whatever the case of its letters.\<close>

definition critical :: "string \<Rightarrow> bool" where
  "critical label = list_ex (\<lambda>keyword. str_in keyword (lower label)) critical_keywords"

text \<open>
  Some node of the tree, at any place, is a dictionary with a \<^verbatim>\<open>value\<close> key (the shape
  of a leaf field), whether or not the traversal looks at that place.
\<close>

fun contains_leaf_node :: "json \<Rightarrow> bool"
  and contains_leaf_node_items :: "(string \<times> json) list \<Rightarrow> bool"
  and contains_leaf_node_list :: "json list \<Rightarrow> bool" where
  "contains_leaf_node (JDict d) = (dict_has d ''value'' \<or> contains_leaf_node_items d)"
| "contains_leaf_node (JList xs) = contains_leaf_node_list xs"
| "contains_leaf_node JNull = False"
| "contains_leaf_node (JBool _) = False"
| "contains_leaf_node (JInt _) = False"
| "contains_leaf_node (JFloat _) = False"
| "contains_leaf_node (JStr _) = False"
| "contains_leaf_node_items [] = False"
| "contains_leaf_node_items ((k, v) # kvs) = (contains_leaf_node v \<or> contains_leaf_node_items kvs)"
| "contains_leaf_node_list [] = False"
| "contains_leaf_node_list (x # xs) = (contains_leaf_node x \<or> contains_leaf_node_list xs)"

text \<open>A document whose list holds its leaf fields directly.\<close>

definition deductions_document :: json where
  "deductions_document =
     JDict [(''deductions'',
             JList [JDict [(''value'', JStr ''12.50''), (''confidence'', JFloat (Fin 1))],
                    JDict [(''value'', JStr ''3.75''), (''confidence'', JFloat (Fin 1))]])]"

section \<open>Verified properties\<close>

subsection \<open>Facts about the built-ins\<close>

lemma round_double_0: "round_double 0 = Fin 0"
  by (simp add: round_double_def)

lemma round_double_1: "round_double 1 = Fin 1"
  by code_simp

lemma round_double_100: "round_double 100 = Fin 100"
  by code_simp

text \<open>The Python literal \<^verbatim>\<open>0.01\<close> is the double \<open>5764607523034235 / 2\<^sup>5\<^sup>9\<close>.\<close>

lemma round_double_hundredth:
  "round_double (1 / 100) = Fin (5764607523034235 / 576460752303423488)"
  by code_simp

subsection \<open>What the string tests mean\<close>

text \<open>
  \<open>str_in\<close> is the substring test, and \<open>critical\<close> says that some stretch of the label
  is a keyword up to the case of its letters.
\<close>

lemma starts_with_iff: "starts_with s p = (\<exists>post. s = p @ post)"
  by (induction s p rule: starts_with.induct) auto

lemma str_in_iff: "str_in sub s = (\<exists>pre post. s = pre @ sub @ post)"
proof (induction s)
  case Nil
  then show ?case by auto
next
  case (Cons c cs)
  have "(\<exists>pre post. c # cs = pre @ sub @ post) =
        ((\<exists>post. c # cs = sub @ post) \<or> (\<exists>pre post. cs = pre @ sub @ post))"
  proof
    assume "\<exists>pre post. c # cs = pre @ sub @ post"
    then obtain pre post where e: "c # cs = pre @ sub @ post" by blast
    show "(\<exists>post. c # cs = sub @ post) \<or> (\<exists>pre post. cs = pre @ sub @ post)"
    proof (cases pre)
      case Nil
      with e show ?thesis by auto
    next
      case (Cons p ps)
      with e have "cs = ps @ sub @ post" by simp
      then show ?thesis by blast
    qed
  next
    assume "(\<exists>post. c # cs = sub @ post) \<or> (\<exists>pre post. cs = pre @ sub @ post)"
    then show "\<exists>pre post. c # cs = pre @ sub @ post"
    proof
      assume "\<exists>post. c # cs = sub @ post"
      then obtain post where "c # cs = [] @ sub @ post" by auto
      then show ?thesis by blast
    next
      assume "\<exists>pre post. cs = pre @ sub @ post"
      then obtain pre post where "c # cs = (c # pre) @ sub @ post" by auto
      then show ?thesis by blast
    qed
  qed
  with Cons show ?case by (simp add: starts_with_iff)
qed

lemma lower_infix:
  "(\<exists>pre post. lower label = pre @ k @ post) =
   (\<exists>pre u post. label = pre @ u @ post \<and> lower u = k)"
proof
  assume "\<exists>pre post. lower label = pre @ k @ post"
  then obtain pre post where "map lower_char label = pre @ (k @ post)"
    unfolding lower_def by blast
  then obtain a r where a: "label = a @ r" and r: "k @ post = map lower_char r"
    unfolding map_eq_append_conv by blast
  from r obtain u b where "r = u @ b" and "k = map lower_char u"
    unfolding append_eq_map_conv by blast
  with a have "label = a @ u @ b \<and> lower u = k"
    by (simp add: lower_def)
  then show "\<exists>pre u post. label = pre @ u @ post \<and> lower u = k" by blast
next
  assume "\<exists>pre u post. label = pre @ u @ post \<and> lower u = k"
  then obtain pre u post where "label = pre @ u @ post" and "lower u = k" by blast
  then have "lower label = lower pre @ k @ lower post"
    by (simp add: lower_def)
  then show "\<exists>pre post. lower label = pre @ k @ post" by blast
qed

lemma critical_iff:
  "critical label =
     (\<exists>keyword \<in> set critical_keywords. \<exists>pre u post. label = pre @ u @ post \<and> lower u = keyword)"
  by (simp add: critical_def list_ex_iff str_in_iff lower_infix)

subsection \<open>The accuracy calculator: helper lemmas\<close>

lemma py_eq_JStr_right: "py_eq v (JStr s) = (v = JStr s)"
  by (cases v) auto

lemma none_or_empty_iff: "none_or_empty v = (v = JNull \<or> v = JStr [])"
  by (simp add: none_or_empty_def py_eq_JStr_right)

lemma values_match_refl: "values_match v v"
  by (cases v) (simp_all add: values_match_def Let_def)

lemma compare_values_same:
  "comparison.status (compare_values v v p) = ''correct'' \<or>
   comparison.status (compare_values v v p) = ''correct_null''"
  by (simp add: compare_values_def Let_def values_match_refl)

lemma record_same_all_correct:
  "all_correct r \<Longrightarrow> all_correct (record_comparison (compare_values v v p) r)"
  using compare_values_same[of v p]
  by (auto simp: all_correct_def record_comparison_def Let_def)

lemma record_total:
  "total_fields (record_comparison c r) = total_fields r + 1"
  by (simp add: record_comparison_def Let_def)

lemma distinct_lookup:
  "distinct (map fst d) \<Longrightarrow> (k, v) \<in> set d \<Longrightarrow> map_of d k = Some v"
  by simp

lemma compare_values_status:
  "comparison.status (compare_values ex gt p) \<in> set known_statuses"
  by (simp add: compare_values_def Let_def known_statuses_def)

lemma record_comparison_tally:
  assumes "tally_ok r" and "comparison.status c \<in> set known_statuses"
  shows "tally_ok (record_comparison c r)"
  using assms by (auto simp: tally_ok_def record_comparison_def Let_def known_statuses_def)

lemma record_compare_values_tally:
  "tally_ok r \<Longrightarrow> tally_ok (record_comparison (compare_values ex gt p) r)"
  by (rule record_comparison_tally[OF _ compare_values_status])

lemma traverse_tally:
  "tally_ok res \<Longrightarrow> tally_ok (traverse_and_compare ex gt p res)"
  "tally_ok res \<Longrightarrow> tally_ok (traverse_keys e g p res)"
  "tally_ok res \<Longrightarrow> tally_ok (traverse_items el gl i p res)"
proof (induction ex gt p res and e g p res and el gl i p res
    rule: traverse_and_compare_traverse_keys_traverse_items.induct)
  case (1 extracted g path res)
  then show ?case by (cases extracted) auto
next
  case (2 extracted g path res)
  then show ?case by (cases extracted) auto
next
  case (9 e key gv rest path res)
  then show ?case
    by (simp add: Let_def compare_field_structure_def record_compare_values_tally)
next
  case (11 e gt_item rest idx path res)
  then show ?case by (simp add: Let_def)
qed simp_all

lemma tally_init: "tally_ok init_results"
  by (simp add: tally_ok_def init_results_def)

lemma traverse_same_all_correct:
  "ex = gt \<Longrightarrow> wf_json gt \<Longrightarrow> all_correct res \<Longrightarrow> all_correct (traverse_and_compare ex gt p res)"
  "\<forall>kv \<in> set g. map_of e (fst kv) = Some (snd kv) \<Longrightarrow> wf_items g \<Longrightarrow> all_correct res
     \<Longrightarrow> all_correct (traverse_keys e g p res)"
  "gl = drop i el \<Longrightarrow> wf_list gl \<Longrightarrow> all_correct res \<Longrightarrow> all_correct (traverse_items el gl i p res)"
proof (induction ex gt p res and e g p res and el gl i p res
    rule: traverse_and_compare_traverse_keys_traverse_items.induct)
  case (1 extracted g path res)
  then show ?case by (auto simp: distinct_lookup)
next
  case (2 extracted g path res)
  then show ?case by auto
next
  case (9 e key gv rest path res)
  then show ?case
    by (simp add: Let_def compare_field_structure_def record_same_all_correct dict_get_def)
next
  case (11 e gt_item rest idx path res)
  let ?cp = "path @ ''['' @ str_of_nat idx @ '']''"
  from "11.prems"(1) have lt: "idx < length e"
    by (metis drop_all list.distinct(1) not_le_imp_less)
  with "11.prems"(1) have nth: "e ! idx = gt_item" and rest: "rest = drop (idx + 1) e"
    by (metis Cons_nth_drop_Suc list.inject, metis Cons_nth_drop_Suc Suc_eq_plus1 list.inject)
  have ex: "(if idx < length e then e ! idx else JDict []) = gt_item"
    using lt nth by simp
  from "11.prems"(2) have wf: "wf_json gt_item" "wf_list rest"
    by simp_all
  have r1: "all_correct (traverse_and_compare gt_item gt_item ?cp res)"
    using "11.IH"(1)[OF refl refl] ex wf(1) "11.prems"(3) by simp
  have r2: "all_correct (traverse_items e rest (idx + 1) path
              (traverse_and_compare gt_item gt_item ?cp res))"
    using "11.IH"(2)[OF refl refl] ex rest wf(2) r1 by simp
  show ?case using r2 ex by (simp add: Let_def)
qed simp_all


lemma traverse_total_mono:
  "total_fields res \<le> total_fields (traverse_and_compare ex gt p res)"
  "total_fields res \<le> total_fields (traverse_keys e g p res)"
  "total_fields res \<le> total_fields (traverse_items el gl i p res)"
proof (induction ex gt p res and e g p res and el gl i p res
    rule: traverse_and_compare_traverse_keys_traverse_items.induct)
  case (1 extracted g path res)
  then show ?case by (cases extracted) auto
next
  case (2 extracted g path res)
  then show ?case by (cases extracted) auto
next
  case (9 e key gv rest path res)
  show ?case
  proof (cases "key \<in> set skip_fields")
    case True
    with 9 show ?thesis by simp
  next
    case skip: False
    show ?thesis
    proof (cases "is_field gv")
      case True
      with skip "9.IH"(2)[OF skip refl True] show ?thesis
        by (simp add: Let_def record_total)
    next
      case nf: False
      show ?thesis
      proof (cases "is_dict gv \<or> is_list gv")
        case True
        from order_trans[OF "9.IH"(3)[OF skip refl nf True] "9.IH"(4)[OF skip refl nf True]]
        show ?thesis using skip nf True
          by (simp add: Let_def)
      next
        case False
        with skip nf "9.IH"(5)[OF skip refl nf False] show ?thesis
          by (simp add: Let_def)
      qed
    qed
  qed
next
  case (11 e gt_item rest idx path res)
  from order_trans[OF "11.IH"(1)[OF refl refl] "11.IH"(2)[OF refl refl]]
  show ?case by (simp add: Let_def)
qed simp_all

lemma traverse_same_total:
  "ex = gt \<Longrightarrow> wf_json gt \<Longrightarrow> has_leaf_field gt
     \<Longrightarrow> total_fields res < total_fields (traverse_and_compare ex gt p res)"
  "\<forall>kv \<in> set g. map_of e (fst kv) = Some (snd kv) \<Longrightarrow> wf_items g \<Longrightarrow> has_leaf_keys g
     \<Longrightarrow> total_fields res < total_fields (traverse_keys e g p res)"
  "gl = drop i el \<Longrightarrow> wf_list gl \<Longrightarrow> has_leaf_items gl
     \<Longrightarrow> total_fields res < total_fields (traverse_items el gl i p res)"
proof (induction ex gt p res and e g p res and el gl i p res
    rule: traverse_and_compare_traverse_keys_traverse_items.induct)
  case (1 extracted g path res)
  then show ?case by (auto simp: distinct_lookup)
next
  case (2 extracted g path res)
  then show ?case by simp
next
  case (9 e key gv rest path res)
  from "9.prems"(1) have here: "map_of e key = Some gv"
    and later: "\<forall>kv \<in> set rest. map_of e (fst kv) = Some (snd kv)"
    by simp_all
  from "9.prems"(2) have wf: "wf_json gv" "wf_items rest"
    by simp_all
  show ?case
  proof (cases "key \<in> set skip_fields")
    case True
    with "9.IH"(1)[OF True later wf(2)] "9.prems"(3) show ?thesis by simp
  next
    case skip: False
    show ?thesis
    proof (cases "is_field gv")
      case True
      have "total_fields res < total_fields (record_comparison
              (compare_field_structure (dict_get e key (JDict [(''value'', JNull), (''confidence'', JFloat (Fin 0))]))
                 gv (if path \<noteq> ''root'' then path @ ''.'' @ key else key)) res)"
        by (simp add: record_total)
      also have "\<dots> \<le> total_fields (traverse_keys e rest path (record_comparison
              (compare_field_structure (dict_get e key (JDict [(''value'', JNull), (''confidence'', JFloat (Fin 0))]))
                 gv (if path \<noteq> ''root'' then path @ ''.'' @ key else key)) res))"
        by (rule traverse_total_mono(2))
      finally show ?thesis using skip True by (simp add: Let_def)
    next
      case nf: False
      with skip "9.prems"(3) have leaf: "has_leaf_field gv \<or> has_leaf_keys rest"
        by simp
      have kind: "is_dict gv \<or> is_list gv \<or> \<not> has_leaf_field gv"
        by (cases gv) simp_all
      let ?cp = "if path \<noteq> ''root'' then path @ ''.'' @ key else key"
      show ?thesis
      proof (cases "is_dict gv \<or> is_list gv")
        case True
        have same: "dict_get e key (if is_dict gv then JDict [] else JList []) = gv"
          using here by (simp add: dict_get_def)
        let ?r1 = "traverse_and_compare gv gv ?cp res"
        from leaf show ?thesis
        proof
          assume "has_leaf_field gv"
          from "9.IH"(3)[OF skip refl nf True _ wf(1) this] same
          have "total_fields res < total_fields ?r1" by simp
          also have "\<dots> \<le> total_fields (traverse_keys e rest path ?r1)"
            by (rule traverse_total_mono(2))
          finally show ?thesis using skip nf True same by (simp add: Let_def)
        next
          assume "has_leaf_keys rest"
          from "9.IH"(4)[OF skip refl nf True later wf(2) this]
          have "total_fields ?r1 < total_fields (traverse_keys e rest path ?r1)"
            using same by simp
          with traverse_total_mono(1)[of res gv gv ?cp]
          show ?thesis using skip nf True same by (simp add: Let_def)
        qed
      next
        case False
        with kind leaf have "has_leaf_keys rest" by blast
        from "9.IH"(5)[OF skip refl nf False later wf(2) this]
        show ?thesis using skip nf False by (simp add: Let_def)
      qed
    qed
  qed
next
  case (11 e gt_item rest idx path res)
  let ?cp = "path @ ''['' @ str_of_nat idx @ '']''"
  from "11.prems"(1) have lt: "idx < length e"
    by (metis drop_all list.distinct(1) not_le_imp_less)
  with "11.prems"(1) have nth: "e ! idx = gt_item" and rest: "rest = drop (idx + 1) e"
    by (metis Cons_nth_drop_Suc list.inject, metis Cons_nth_drop_Suc Suc_eq_plus1 list.inject)
  have ex: "(if idx < length e then e ! idx else JDict []) = gt_item"
    using lt nth by simp
  from "11.prems"(2) have wf: "wf_json gt_item" "wf_list rest"
    by simp_all
  let ?r1 = "traverse_and_compare gt_item gt_item ?cp res"
  from "11.prems"(3) have "has_leaf_field gt_item \<or> has_leaf_items rest" by simp
  then show ?case
  proof
    assume "has_leaf_field gt_item"
    from "11.IH"(1)[OF refl refl _ wf(1) this] ex
    have "total_fields res < total_fields ?r1" by simp
    also have "\<dots> \<le> total_fields (traverse_items e rest (idx + 1) path ?r1)"
      by (rule traverse_total_mono(3))
    finally show ?thesis using ex by (simp add: Let_def)
  next
    assume "has_leaf_items rest"
    from "11.IH"(2)[OF refl refl _ wf(2) this] ex rest
    have "total_fields ?r1 < total_fields (traverse_items e rest (idx + 1) path ?r1)"
      by simp
    with traverse_total_mono(1)[of res gt_item gt_item ?cp]
    show ?thesis using ex by (simp add: Let_def)
  qed
qed simp_all

lemma all_correct_init: "all_correct init_results"
  by (simp add: all_correct_def init_results_def)

subsection \<open>The accuracy calculator: claims\<close>

text \<open>
  Claim C4. For every comparison run of \<^verbatim>\<open>compare\<close> (here \<open>calculate_accuracy\<close> on the
  two loaded trees), \<open>total_fields\<close> equals
  \<open>correct_fields + incorrect_fields + missing_fields\<close> and equals the length of
  \<open>field_details\<close>; every recorded comparison has one of the statuses \<open>correct\<close>,
  \<open>correct_null\<close>, \<open>incorrect\<close>, \<open>missing\<close>, \<open>false_positive\<close> (so never \<open>unknown\<close>);
  and the three counters count the records by the table
  \<open>{correct, correct_null}\<close>, \<open>{incorrect, false_positive}\<close>, \<open>{missing}\<close>.
\<close>

theorem calculate_accuracy_tally:
  "total_fields (calculate_accuracy ex gt) =
     correct_fields (calculate_accuracy ex gt) + incorrect_fields (calculate_accuracy ex gt)
       + missing_fields (calculate_accuracy ex gt) \<and>
   total_fields (calculate_accuracy ex gt) = length (field_details (calculate_accuracy ex gt)) \<and>
   list_all (\<lambda>c. comparison.status c \<in> set [''correct'', ''correct_null'', ''incorrect'',
                                              ''missing'', ''false_positive''])
     (field_details (calculate_accuracy ex gt)) \<and>
   list_all (\<lambda>c. comparison.status c \<noteq> ''unknown'') (field_details (calculate_accuracy ex gt)) \<and>
   correct_fields (calculate_accuracy ex gt) =
     length (filter (\<lambda>c. comparison.status c = ''correct'' \<or> comparison.status c = ''correct_null'')
               (field_details (calculate_accuracy ex gt))) \<and>
   incorrect_fields (calculate_accuracy ex gt) =
     length (filter (\<lambda>c. comparison.status c = ''incorrect'' \<or> comparison.status c = ''false_positive'')
               (field_details (calculate_accuracy ex gt))) \<and>
   missing_fields (calculate_accuracy ex gt) =
     length (filter (\<lambda>c. comparison.status c = ''missing'')
               (field_details (calculate_accuracy ex gt)))"
proof -
  let ?r = "traverse_and_compare ex gt ''root'' init_results"
  let ?d = "field_details ?r"
  have t: "tally_ok ?r"
    by (rule traverse_tally(1)[OF tally_init])
  have e: "total_fields (calculate_accuracy ex gt) = total_fields ?r"
    "correct_fields (calculate_accuracy ex gt) = correct_fields ?r"
    "incorrect_fields (calculate_accuracy ex gt) = incorrect_fields ?r"
    "missing_fields (calculate_accuracy ex gt) = missing_fields ?r"
    "field_details (calculate_accuracy ex gt) = ?d"
    by (simp_all add: calculate_accuracy_def Let_def)
  from t have f1: "total_fields ?r = correct_fields ?r + incorrect_fields ?r + missing_fields ?r"
    and f2: "total_fields ?r = length ?d"
    and f3: "correct_fields ?r =
      length (filter (\<lambda>c. comparison.status c = ''correct'' \<or> comparison.status c = ''correct_null'') ?d)"
    and f4: "incorrect_fields ?r =
      length (filter (\<lambda>c. comparison.status c = ''incorrect'' \<or> comparison.status c = ''false_positive'') ?d)"
    and f5: "missing_fields ?r = length (filter (\<lambda>c. comparison.status c = ''missing'') ?d)"
    and f6: "list_all (\<lambda>c. comparison.status c \<in> set known_statuses) ?d"
    unfolding tally_ok_def by blast+
  from f6 have f7: "list_all (\<lambda>c. comparison.status c \<noteq> ''unknown'') ?d"
    by (auto simp: list_all_iff known_statuses_def)
  from f1 f2 f3 f4 f5 f6 f7 show ?thesis
    unfolding e known_statuses_def by blast
qed

text \<open>
  Claim C5, as written: for every well-formed value tree \<open>X\<close> containing at least one
  leaf field, comparing \<open>X\<close> with itself gives \<open>accuracy_percentage = 100.0\<close> and no
  record with status \<open>incorrect\<close> or \<open>missing\<close>. This fails for a tree whose leaf fields
  are not values of dictionary entries: the traversal recognises a leaf field only in the
  loop over the keys of a dictionary, so leaf fields that are the elements of a list are
  never compared, no comparison is recorded, and the accuracy stays \<open>0.0\<close>.
\<close>

theorem compare_same_tree_counterexample:
  "wf_json deductions_document \<and> contains_leaf_node deductions_document \<and>
   total_fields (calculate_accuracy deductions_document deductions_document) = 0 \<and>
   accuracy_percentage (calculate_accuracy deductions_document deductions_document) = Fin 0"
  by code_simp

text \<open>
  Claim C5, amended: for every well-formed value tree \<open>X\<close> (no dictionary has a key twice)
  in which the traversal reaches a leaf field, comparing \<open>X\<close> with itself gives
  \<open>accuracy_percentage = 100.0\<close> and no comparison record with status \<open>incorrect\<close> or
  \<open>missing\<close>. The traversal reaches a leaf field when a dictionary entry has as its value
  a dictionary with a \<^verbatim>\<open>value\<close> key, the entry being reached through dictionaries
  (under keys other than the three administrative ones) and through lists.
\<close>

theorem compare_same_tree_all_correct:
  assumes "wf_json X" and "has_leaf_field X"
  shows "accuracy_percentage (calculate_accuracy X X) = Fin 100 \<and>
         filter (\<lambda>c. comparison.status c = ''incorrect'' \<or> comparison.status c = ''missing'')
           (field_details (calculate_accuracy X X)) = []"
proof -
  let ?r = "traverse_and_compare X X ''root'' init_results"
  have ac: "all_correct ?r"
    by (rule traverse_same_all_correct(1)[OF refl assms(1) all_correct_init])
  have pos: "0 < total_fields ?r"
    using traverse_same_total(1)[OF refl assms(1) assms(2), of init_results "''root''"]
    by simp
  from ac have eq: "correct_fields ?r = total_fields ?r"
    by (simp add: all_correct_def)
  have acc: "accuracy_percentage (calculate_accuracy X X) = Fin 100"
    using pos eq by (simp add: calculate_accuracy_def Let_def round_double_1 round_double_100)
  have "filter (\<lambda>c. comparison.status c = ''incorrect'' \<or> comparison.status c = ''missing'')
          (field_details ?r) = []"
    using ac by (auto simp: all_correct_def filter_empty_conv list_all_iff)
  then show ?thesis using acc by (simp add: calculate_accuracy_def Let_def)
qed

theorem compare_same_tree_all_correct_witness:
  "wf_json (JDict [(''net_pay'', JDict [(''value'', JStr ''1,250.00''), (''confidence'', JFloat (Fin 1))])]) \<and>
   has_leaf_field (JDict [(''net_pay'', JDict [(''value'', JStr ''1,250.00''), (''confidence'', JFloat (Fin 1))])]) \<and>
   accuracy_percentage
     (calculate_accuracy
        (JDict [(''net_pay'', JDict [(''value'', JStr ''1,250.00''), (''confidence'', JFloat (Fin 1))])])
        (JDict [(''net_pay'', JDict [(''value'', JStr ''1,250.00''), (''confidence'', JFloat (Fin 1))])]))
     = Fin 100"
proof -
  let ?X = "JDict [(''net_pay'', JDict [(''value'', JStr ''1,250.00''), (''confidence'', JFloat (Fin 1))])]"
  have w: "wf_json ?X" by simp
  have h: "has_leaf_field ?X" by (simp add: skip_fields_def dict_has_def)
  from compare_same_tree_all_correct[OF w h] w h show ?thesis by simp
qed

text \<open>
  Claim C6. For every leaf comparison: when the ground-truth value is null or the empty
  string, the status is \<open>correct_null\<close> if the extracted value is also null or empty and
  \<open>false_positive\<close> otherwise (so never \<open>correct\<close>); when the ground-truth value is
  populated and the extracted value is null or empty, the status is \<open>missing\<close>.
\<close>

theorem compare_values_null_cases:
  "((gt = JNull \<or> gt = JStr []) \<longrightarrow>
      comparison.status (compare_values ex gt p) =
        (if ex = JNull \<or> ex = JStr [] then ''correct_null'' else ''false_positive'') \<and>
      comparison.status (compare_values ex gt p) \<noteq> ''correct'') \<and>
   (gt \<noteq> JNull \<and> gt \<noteq> JStr [] \<and> (ex = JNull \<or> ex = JStr []) \<longrightarrow>
      comparison.status (compare_values ex gt p) = ''missing'')"
  by (simp add: compare_values_def none_or_empty_iff)

theorem compare_values_null_cases_witness:
  "comparison.status (compare_values (JStr ''1,250.00'') JNull ''net_pay'') = ''false_positive'' \<and>
   comparison.status (compare_values JNull (JStr []) ''net_pay'') = ''correct_null'' \<and>
   comparison.status (compare_values (JStr []) (JStr ''1,250.00'') ''net_pay'') = ''missing''"
  using compare_values_null_cases[of JNull "JStr ''1,250.00''" "''net_pay''"]
    compare_values_null_cases[of "JStr []" JNull "''net_pay''"]
    compare_values_null_cases[of "JStr ''1,250.00''" "JStr []" "''net_pay''"]
  by simp

text \<open>
  Claim C7, as written: the value-match predicate, on two numeric-looking strings, accepts
  exactly when the absolute difference of their parsed decimal values is strictly less
  than \<open>0.01\<close>. This fails where rounding decides: the decimal values of \<^verbatim>\<open>"0.03"\<close> and
  \<^verbatim>\<open>"0.02"\<close> differ by \<open>0.01\<close> exactly, which is not less than \<open>0.01\<close>, yet the two strings
  match, because \<^verbatim>\<open>float("0.03") - float("0.02")\<close> is the double
  \<^verbatim>\<open>0.009999999999999998\<close>.
\<close>

theorem values_match_decimal_boundary_counterexample:
  "parse_decimal ''0.03'' = Some (3 / 100) \<and> parse_decimal ''0.02'' = Some (2 / 100) \<and>
   \<not> \<bar>3 / 100 - 2 / 100 :: rat\<bar> < 1 / 100 \<and>
   values_match (JStr ''0.03'') (JStr ''0.02'')"
  by code_simp

text \<open>
  Claim C7, amended: on two strings that \<^verbatim>\<open>float\<close> parses to finite numbers once the
  commas are removed, the predicate accepts exactly when the absolute difference of the
  two doubles, computed in double arithmetic, is strictly less than the double \<^verbatim>\<open>0.01\<close>;
  in particular \<^verbatim>\<open>"100.00"\<close> matches \<^verbatim>\<open>"100.009"\<close> and does not match \<^verbatim>\<open>"100.02"\<close>.
\<close>

theorem values_match_numeric_tolerance:
  assumes "float_of_str (remove_char (CHR '','') a) = Some (Fin x)"
    and "float_of_str (remove_char (CHR '','') b) = Some (Fin y)"
  shows "values_match (JStr a) (JStr b) =
           flt (fabs (fsub (Fin x) (Fin y))) (round_double (1 / 100)) \<and>
         values_match (JStr ''100.00'') (JStr ''100.009'') \<and>
         \<not> values_match (JStr ''100.00'') (JStr ''100.02'')"
proof -
  have general: "values_match (JStr a) (JStr b) =
      flt (fabs (fsub (Fin x) (Fin y))) (round_double (1 / 100))"
  proof (cases "a = b")
    case True
    with assms have "x = y" by simp
    then show ?thesis using True
      by (simp add: values_match_def fsub_def round_double_0 round_double_hundredth)
  next
    case False
    then show ?thesis using assms
      by (simp add: values_match_def)
  qed
  have yes: "values_match (JStr ''100.00'') (JStr ''100.009'')"
    by code_simp
  have no: "\<not> values_match (JStr ''100.00'') (JStr ''100.02'')"
    by code_simp
  from general yes no show ?thesis by simp
qed

theorem values_match_numeric_tolerance_witness:
  "float_of_str (remove_char (CHR '','') ''1,250.00'') = Some (Fin 1250) \<and>
   float_of_str (remove_char (CHR '','') ''1250.004'') = Some (Fin (1374393932766511 / 1099511627776)) \<and>
   values_match (JStr ''1,250.00'') (JStr ''1250.004'') =
     flt (fabs (fsub (Fin 1250) (Fin (1374393932766511 / 1099511627776)))) (round_double (1 / 100))"
proof -
  have p1: "float_of_str (remove_char (CHR '','') ''1,250.00'') = Some (Fin 1250)"
    by code_simp
  have p2: "float_of_str (remove_char (CHR '','') ''1250.004'') =
      Some (Fin (1374393932766511 / 1099511627776))"
    by code_simp
  from values_match_numeric_tolerance[OF p1 p2] p1 p2 show ?thesis by simp
qed

subsection \<open>The financial validator: helper lemmas\<close>

lemma parse_1000:
  "float_of_str (remove_char (CHR '' '') (remove_char (CHR '','') ''1000'')) = Some (Fin 1000)"
  by code_simp

lemma parse_600:
  "float_of_str (remove_char (CHR '' '') (remove_char (CHR '','') ''600'')) = Some (Fin 600)"
  by code_simp

lemma parse_400:
  "float_of_str (remove_char (CHR '' '') (remove_char (CHR '','') ''400'')) = Some (Fin 400)"
  by code_simp

lemma parse_399:
  "float_of_str (remove_char (CHR '' '') (remove_char (CHR '','') ''399'')) = Some (Fin 399)"
  by code_simp

lemma parse_398:
  "float_of_str (remove_char (CHR '' '') (remove_char (CHR '','') ''398'')) = Some (Fin 398)"
  by code_simp

text \<open>Check 1 on any schema that has the three totals of the scenario.\<close>

lemma validate_accounting_equation_totals:
  assumes a: "dict_get md ''AssetsTotal'' (JDict []) = years_2020 ''1000''"
    and l: "dict_get md ''LiabilitiesTotal'' (JDict []) = years_2020 ''600''"
    and e: "dict_get md ''Equity'' (JDict []) = JDict eq"
    and t: "dict_get eq ''TotalEquity'' (JDict []) = years_2020 v"
    and p: "float_of_str (remove_char (CHR '' '') (remove_char (CHR '','') v)) = Some (Fin x)"
    and n: "v \<noteq> []"
  shows "validate_accounting_equation md st =
     (if fgt (fabs (fsub (Fin 1000) (fadd (Fin 600) (Fin x)))) (Fin 1)
      then st\<lparr>validator.errors := validator.errors st
                @ [equation_failed_message (Fin 1000) (Fin 600) (Fin x)]\<rparr>
      else st)"
proof -
  have y: "\<And>v. py_get (years_2020 v) ''years'' (JDict []) = Inr (JDict [(''2020'', JStr v)])"
    by (simp add: years_2020_def dict_get_def)
  have x1: "extract_numeric_value (JDict [(''2020'', JStr ''1000'')]) = Inr (Some (Fin 1000))"
    by (simp add: extract_numeric_value_def then_do_def py_eq_JStr_right parse_1000)
  have x2: "extract_numeric_value (JDict [(''2020'', JStr ''600'')]) = Inr (Some (Fin 600))"
    by (simp add: extract_numeric_value_def then_do_def py_eq_JStr_right parse_600)
  have x3: "extract_numeric_value (JDict [(''2020'', JStr v)]) = Inr (Some (Fin x))"
    using p n by (simp add: extract_numeric_value_def then_do_def py_eq_JStr_right)
  show ?thesis
    by (simp add: validate_accounting_equation_def accounting_equation_body_def a l e t y x1 x2 x3
        then_do_def Let_def)
qed

lemma equation_schema_lookups:
  "dict_get (equation_schema v) ''AssetsTotal'' (JDict []) = years_2020 ''1000''"
  "dict_get (equation_schema v) ''LiabilitiesTotal'' (JDict []) = years_2020 ''600''"
  "dict_get (equation_schema v) ''Equity'' (JDict []) = JDict [(''TotalEquity'', years_2020 v)]"
  "dict_get [(''TotalEquity'', years_2020 v)] ''TotalEquity'' (JDict []) = years_2020 v"
  by (simp_all add: equation_schema_def dict_get_def)

lemma equation_400: "\<not> fgt (fabs (fsub (Fin 1000) (fadd (Fin 600) (Fin 400)))) (Fin 1)"
  by code_simp

lemma equation_399: "\<not> fgt (fabs (fsub (Fin 1000) (fadd (Fin 600) (Fin 399)))) (Fin 1)"
  by code_simp

lemma equation_398: "fgt (fabs (fsub (Fin 1000) (fadd (Fin 600) (Fin 398)))) (Fin 1)"
  by code_simp

lemma message_398:
  "equation_failed_message (Fin 1000) (Fin 600) (Fin 398) =
     ''Accounting equation failed: Assets (1000.0) '' @ [CHR 0xE2, CHR 0x89, CHR 0xA0]
     @ '' Liabilities (600.0) + Equity (398.0)''"
  by code_simp

text \<open>The test of the result assembly is for the lower-case text.\<close>

lemma message_398_not_lowercase:
  "\<not> str_in ''accounting equation''
       (''Accounting equation failed: Assets (1000.0) '' @ [CHR 0xE2, CHR 0x89, CHR 0xA0]
        @ '' Liabilities (600.0) + Equity (398.0)'')"
  by code_simp

lemma check1_400: "validate_accounting_equation (equation_schema ''400'') st = st"
  using validate_accounting_equation_totals[OF equation_schema_lookups parse_400, of st] equation_400
  by simp

lemma check1_399: "validate_accounting_equation (equation_schema ''399'') st = st"
  using validate_accounting_equation_totals[OF equation_schema_lookups parse_399, of st] equation_399
  by simp

lemma check1_398:
  "validate_accounting_equation (equation_schema ''398'') st =
     st\<lparr>validator.errors := validator.errors st
          @ [''Accounting equation failed: Assets (1000.0) '' @ [CHR 0xE2, CHR 0x89, CHR 0xA0]
             @ '' Liabilities (600.0) + Equity (398.0)'']\<rparr>"
  using validate_accounting_equation_totals[OF equation_schema_lookups parse_398, of st]
    equation_398 message_398
  by simp

text \<open>The four other checks add nothing on the schemas of the scenario.\<close>

lemma other_checks_400:
  "validate_numeric_values (equation_schema ''400'') st = Inr st"
  "validate_subtotals (equation_schema ''400'') st = Inr st"
  "validate_consistency (equation_schema ''400'') st = Inr st"
  "validate_unmapped_items (equation_schema ''400'') st = Inr st"
  by code_simp+

lemma other_checks_399:
  "validate_numeric_values (equation_schema ''399'') st = Inr st"
  "validate_subtotals (equation_schema ''399'') st = Inr st"
  "validate_consistency (equation_schema ''399'') st = Inr st"
  "validate_unmapped_items (equation_schema ''399'') st = Inr st"
  by code_simp+

lemma other_checks_398:
  "validate_numeric_values (equation_schema ''398'') st = Inr st"
  "validate_subtotals (equation_schema ''398'') st = Inr st"
  "validate_consistency (equation_schema ''398'') st = Inr st"
  "validate_unmapped_items (equation_schema ''398'') st = Inr st"
  by code_simp+

lemma validate_400:
  "validate_mapped_data (equation_schema ''400'') =
     Inr \<lparr>accounting_equation_valid = True, total_errors = 0, total_warnings = 0,
          errors = [], warnings = [], status = ''PASS''\<rparr>"
  by (simp add: validate_mapped_data_def Let_def then_do_def check1_400 other_checks_400)

lemma validate_399:
  "validate_mapped_data (equation_schema ''399'') =
     Inr \<lparr>accounting_equation_valid = True, total_errors = 0, total_warnings = 0,
          errors = [], warnings = [], status = ''PASS''\<rparr>"
  by (simp add: validate_mapped_data_def Let_def then_do_def check1_399 other_checks_399)

lemma validate_398:
  "validate_mapped_data (equation_schema ''398'') =
     Inr \<lparr>accounting_equation_valid = True, total_errors = 1, total_warnings = 0,
          errors = [''Accounting equation failed: Assets (1000.0) '' @ [CHR 0xE2, CHR 0x89, CHR 0xA0]
                    @ '' Liabilities (600.0) + Equity (398.0)''],
          warnings = [], status = ''FAIL''\<rparr>"
  using message_398_not_lowercase
  by (simp add: validate_mapped_data_def Let_def then_do_def check1_398 other_checks_398)

text \<open>Check 3, once the total and the sum of the components are known.\<close>

lemma subtotal_total_present:
  assumes "subtotal_total (JDict ca) = Inr x"
  shows "dict_has ca ''TotalCurrentAssets''"
proof (cases "map_of ca ''TotalCurrentAssets''")
  case None
  with assms show ?thesis
    by (simp add: subtotal_total_def then_do_def dict_get_def)
next
  case (Some v)
  then show ?thesis by (simp add: dict_has_def)
qed

lemma validate_subtotals_result:
  assumes "dict_get md ''CurrentAssets'' (JDict []) = JDict ca"
    and "subtotal_total (JDict ca) = Inr (Some t)"
    and "subtotal_components_sum (JDict ca) = Inr cs"
  shows "validate_subtotals md st =
     Inr (if subtotal_differs t cs
          then st\<lparr>validator.warnings := validator.warnings st @ [subtotal_message t cs]\<rparr>
          else st)"
  using assms subtotal_total_present[OF assms(2)]
  by (simp add: validate_subtotals_def Let_def then_do_def)

lemma total_1010: "subtotal_total (JDict (current_assets ''1010'')) = Inr (Some (Fin 1010))"
  by code_simp

lemma total_1012: "subtotal_total (JDict (current_assets ''1012'')) = Inr (Some (Fin 1012))"
  by code_simp

lemma total_1005: "subtotal_total (JDict (current_assets ''1005'')) = Inr (Some (Fin 1005))"
  by code_simp

lemma total_0: "subtotal_total (JDict (current_assets ''0'')) = Inr (Some (Fin 0))"
  by code_simp

lemma components_1000: "subtotal_components_sum (JDict (current_assets t)) = Inr (Fin 1000)"
  by code_simp

lemma differs_1010: "\<not> subtotal_differs (Fin 1010) (Fin 1000)"
  by code_simp

lemma differs_1012: "subtotal_differs (Fin 1012) (Fin 1000)"
  by code_simp

lemma differs_1005: "\<not> subtotal_differs (Fin 1005) (Fin 1000)"
  by code_simp

lemma message_1012:
  "subtotal_message (Fin 1012) (Fin 1000) =
     ''CurrentAssets total (1012.0) differs from sum of components (1000.0)''"
  by code_simp

lemma subtotal_schema_lookup:
  "dict_get (subtotal_schema t) ''CurrentAssets'' (JDict []) = JDict (current_assets t)"
  by (simp add: subtotal_schema_def dict_get_def)

text \<open>Check 5 on a list of well-formed items.\<close>

lemma not_critical_empty: "\<not> critical []"
  by (simp add: critical_def critical_keywords_def lower_def)

lemma critical_total_reserves: "critical ''Total Reserves''"
  by code_simp

lemma not_critical_note: "\<not> critical ''Miscellaneous Note 12''"
  by code_simp

lemma unmapped_loop_result:
  "list_all labelled items \<Longrightarrow>
   unmapped_loop items st =
     Inr (st\<lparr>validator.warnings := validator.warnings st
            @ map (\<lambda>it. unmapped_message (JStr (label_of it)))
                (filter (\<lambda>it. critical (label_of it)) items)\<rparr>)"
proof (induction items arbitrary: st)
  case Nil
  then show ?case by simp
next
  case (Cons item rest)
  from Cons.prems obtain d where d: "item = JDict d"
    by (cases item) simp_all
  from Cons.prems have rest: "list_all labelled rest" by simp
  show ?case
  proof (cases "map_of d ''label_raw''")
    case None
    then show ?thesis using d Cons.IH[OF rest] not_critical_empty
      by (simp add: then_do_def dict_get_def critical_def lower_def)
  next
    case (Some v)
    with Cons.prems d obtain s where s: "v = JStr s"
      by (cases v) simp_all
    show ?thesis using d Some s Cons.IH[OF rest]
      by (simp add: then_do_def dict_get_def critical_def)
  qed
qed

subsection \<open>The financial validator: claims\<close>

text \<open>
  Claim C1. The returned \<open>accounting_equation_valid\<close> is true if and only if no error of
  the accounting-equation check is among the accumulated errors; in particular it is
  false when check 1 appends its \<^verbatim>\<open>Accounting equation failed\<close> error. The code does
  not do this: the result assembly looks for the text \<^verbatim>\<open>accounting equation\<close> in lower
  case, and the error of check 1 starts with a capital \<open>A\<close>. On the schema with assets
  1000, liabilities 600 and equity 398 the error is appended and the flag is still true.
\<close>

theorem accounting_equation_valid_despite_error:
  "\<exists>r. validate_mapped_data (equation_schema ''398'') = Inr r \<and>
       validation_result.errors r =
         [''Accounting equation failed: Assets (1000.0) '' @ [CHR 0xE2, CHR 0x89, CHR 0xA0]
          @ '' Liabilities (600.0) + Equity (398.0)''] \<and>
       accounting_equation_valid r = True"
  by (simp add: validate_398)

text \<open>
  Claim C2. For every balance-sheet schema given as a mapping, also with absent sections
  or fields, empty \<^verbatim>\<open>years\<close> mappings or non-numeric values, \<^verbatim>\<open>validate_mapped_data\<close>
  returns a result and never raises. The code does not do this: in the subtotal check a
  component with an empty \<^verbatim>\<open>years\<close> dictionary contributes \<^verbatim>\<open>None\<close> to the list that
  \<^verbatim>\<open>sum\<close> adds up, and \<^verbatim>\<open>0 + None\<close> raises \<^verbatim>\<open>TypeError\<close>, which nothing catches.
\<close>

theorem validate_mapped_data_raises_on_empty_years:
  "validate_mapped_data sparse_schema =
     Inl (TypeError (''unsupported operand type(s) for +: '' @ quoted ''int'' @ '' and ''
                     @ quoted ''NoneType''))"
  by code_simp

text \<open>
  Claim C3, as written: with assets 1000, liabilities 600 and equity 400 the validation
  gives \<open>accounting_equation_valid = true\<close> and no error of check 1; with equity 399 it
  gives exactly one \<^verbatim>\<open>Accounting equation failed\<close> error and \<open>status = FAIL\<close>. The second
  half fails: \<open>|1000 - (600 + 399)| = 1\<close> is not greater than the tolerance 1, so no
  error is raised and the status is \<open>PASS\<close>.
\<close>

theorem equity_399_passes_counterexample:
  "\<exists>r. validate_mapped_data (equation_schema ''399'') = Inr r \<and>
       validation_result.errors r = [] \<and> validation_result.status r = ''PASS''"
  by (simp add: validate_399)

text \<open>
  Claim C3, amended: with equity 400 the validation gives
  \<open>accounting_equation_valid = true\<close> and no error; with equity 399 (a difference of 1, the
  tolerance) it gives no error either and \<open>status = PASS\<close>; with equity 398 it gives exactly
  one error, \<^verbatim>\<open>Accounting equation failed\<close> with the three values 1000.0, 600.0 and
  398.0, and \<open>status = FAIL\<close>.
\<close>

theorem accounting_equation_scenario:
  "(\<exists>r. validate_mapped_data (equation_schema ''400'') = Inr r \<and>
        accounting_equation_valid r = True \<and> validation_result.errors r = []) \<and>
   (\<exists>r. validate_mapped_data (equation_schema ''399'') = Inr r \<and>
        validation_result.errors r = [] \<and> validation_result.status r = ''PASS'') \<and>
   (\<exists>r. validate_mapped_data (equation_schema ''398'') = Inr r \<and>
        validation_result.errors r =
          [''Accounting equation failed: Assets (1000.0) '' @ [CHR 0xE2, CHR 0x89, CHR 0xA0]
           @ '' Liabilities (600.0) + Equity (398.0)''] \<and>
        validation_result.status r = ''FAIL'')"
  by (simp add: validate_400 validate_399 validate_398)

text \<open>
  Claim C8, as written: the subtotal check on \<^verbatim>\<open>CurrentAssets\<close> emits a warning exactly
  when the total and the sum of the components differ by more than 1% of the sum. This
  fails when one of the two numbers is zero: with components 500, 300 and 200 and a total
  of 0 the difference is 1000, more than 1% of 1000, and no warning is emitted.
\<close>

theorem subtotal_zero_total_counterexample:
  "subtotal_total (JDict (current_assets ''0'')) = Inr (Some (Fin 0)) \<and>
   subtotal_components_sum (JDict (current_assets ''0'')) = Inr (Fin 1000) \<and>
   \<bar>0 - 1000 :: rat\<bar> > 1000 * (1 / 100) \<and>
   fgt (fabs (fsub (Fin 0) (Fin 1000))) (fmul (Fin 1000) (round_double (1 / 100))) \<and>
   validate_subtotals (subtotal_schema ''0'') empty_validator = Inr empty_validator"
proof -
  have d: "fgt (fabs (fsub (Fin 0) (Fin 1000))) (fmul (Fin 1000) (round_double (1 / 100)))"
    by code_simp
  have z: "\<not> subtotal_differs (Fin 0) (Fin 1000)"
    by (simp add: subtotal_differs_def ftruthy_def)
  have v: "validate_subtotals (subtotal_schema ''0'') empty_validator = Inr empty_validator"
    using validate_subtotals_result[OF subtotal_schema_lookup total_0 components_1000] z
    by simp
  from d v total_0 components_1000 show ?thesis by simp
qed

text \<open>
  Claim C8, amended: when \<^verbatim>\<open>TotalCurrentAssets\<close> and every component have a
  representative value, the check emits one warning (and never an error) exactly when the
  total and the sum of the components are both non-zero and differ, in double arithmetic,
  by strictly more than the sum times \<^verbatim>\<open>0.01\<close>; otherwise it emits nothing. With
  components summing to 1000, a total of 1010 produces no warning, a total of 1012
  exactly one, and a total of 1005 none.
\<close>

theorem subtotal_warning_condition:
  assumes "dict_get md ''CurrentAssets'' (JDict []) = JDict ca"
    and "subtotal_total (JDict ca) = Inr (Some t)"
    and "subtotal_components_sum (JDict ca) = Inr cs"
  shows "validate_subtotals md st =
           Inr (if t \<noteq> Fin 0 \<and> cs \<noteq> Fin 0
                   \<and> fgt (fabs (fsub t cs)) (fmul cs (round_double (1 / 100)))
                then st\<lparr>validator.warnings := validator.warnings st
                         @ [''CurrentAssets total ('' @ float_repr t
                            @ '') differs from sum of components ('' @ float_repr cs @ '')'']\<rparr>
                else st) \<and>
         validate_subtotals (subtotal_schema ''1010'') st = Inr st \<and>
         validate_subtotals (subtotal_schema ''1012'') st =
           Inr (st\<lparr>validator.warnings := validator.warnings st
                  @ [''CurrentAssets total (1012.0) differs from sum of components (1000.0)'']\<rparr>) \<and>
         validate_subtotals (subtotal_schema ''1005'') st = Inr st"
proof -
  have general: "validate_subtotals md st =
           Inr (if t \<noteq> Fin 0 \<and> cs \<noteq> Fin 0
                   \<and> fgt (fabs (fsub t cs)) (fmul cs (round_double (1 / 100)))
                then st\<lparr>validator.warnings := validator.warnings st
                         @ [''CurrentAssets total ('' @ float_repr t
                            @ '') differs from sum of components ('' @ float_repr cs @ '')'']\<rparr>
                else st)"
    using validate_subtotals_result[OF assms, of st]
    by (simp add: subtotal_differs_def ftruthy_def subtotal_message_def)
  have s1010: "validate_subtotals (subtotal_schema ''1010'') st = Inr st"
    using validate_subtotals_result[OF subtotal_schema_lookup total_1010 components_1000] differs_1010
    by simp
  have s1012: "validate_subtotals (subtotal_schema ''1012'') st =
           Inr (st\<lparr>validator.warnings := validator.warnings st
                  @ [''CurrentAssets total (1012.0) differs from sum of components (1000.0)'']\<rparr>)"
    using validate_subtotals_result[OF subtotal_schema_lookup total_1012 components_1000]
      differs_1012 message_1012
    by simp
  have s1005: "validate_subtotals (subtotal_schema ''1005'') st = Inr st"
    using validate_subtotals_result[OF subtotal_schema_lookup total_1005 components_1000] differs_1005
    by simp
  from general s1010 s1012 s1005 show ?thesis by simp
qed

theorem subtotal_warning_condition_witness:
  "dict_get (subtotal_schema ''1012'') ''CurrentAssets'' (JDict []) = JDict (current_assets ''1012'') \<and>
   subtotal_total (JDict (current_assets ''1012'')) = Inr (Some (Fin 1012)) \<and>
   subtotal_components_sum (JDict (current_assets ''1012'')) = Inr (Fin 1000) \<and>
   validate_subtotals (subtotal_schema ''1012'') empty_validator =
     Inr \<lparr>validator.errors = [],
          validator.warnings =
            [''CurrentAssets total (1012.0) differs from sum of components (1000.0)'']\<rparr>"
proof -
  have gt: "fgt (fabs (fsub (Fin 1012) (Fin 1000))) (fmul (Fin 1000) (round_double (1 / 100)))"
    using differs_1012 by (simp add: subtotal_differs_def)
  have msg: "''CurrentAssets total ('' @ float_repr (Fin 1012)
      @ '') differs from sum of components ('' @ float_repr (Fin 1000) @ '')''
      = ''CurrentAssets total (1012.0) differs from sum of components (1000.0)''"
    using message_1012 by (simp only: subtotal_message_def)
  from subtotal_warning_condition[OF subtotal_schema_lookup total_1012 components_1000,
      of empty_validator]
  have "validate_subtotals (subtotal_schema ''1012'') empty_validator =
      Inr (if Fin 1012 \<noteq> Fin 0 \<and> Fin 1000 \<noteq> Fin 0
              \<and> fgt (fabs (fsub (Fin 1012) (Fin 1000))) (fmul (Fin 1000) (round_double (1 / 100)))
           then empty_validator\<lparr>validator.warnings := validator.warnings empty_validator
                  @ [''CurrentAssets total ('' @ float_repr (Fin 1012)
                     @ '') differs from sum of components ('' @ float_repr (Fin 1000) @ '')'']\<rparr>
           else empty_validator)"
    by (rule conjunct1)
  then have r: "validate_subtotals (subtotal_schema ''1012'') empty_validator =
     Inr \<lparr>validator.errors = [],
          validator.warnings =
            [''CurrentAssets total (1012.0) differs from sum of components (1000.0)'']\<rparr>"
    unfolding msg using gt by (simp add: empty_validator_def)
  show ?thesis
    by (intro conjI) (rule subtotal_schema_lookup total_1012 components_1000 r)+
qed

text \<open>
  Claim C9. The unmapped-items check warns when there are more than 10 unmapped items,
  and independently warns once for every unmapped item whose raw label contains, in any
  case of letters, one of the keywords \<open>total\<close>, \<open>assets\<close>, \<open>liabilities\<close>, \<open>equity\<close>; the
  warning quotes the label. The label \<^verbatim>\<open>Total Reserves\<close> is such a label,
  \<^verbatim>\<open>Miscellaneous Note 12\<close> is not. (Items are dictionaries whose \<^verbatim>\<open>label_raw\<close>,
  when present, is a string.)
\<close>

theorem unmapped_items_warnings:
  assumes "py_get (dict_get md ''unmapped_items'' (JDict [])) ''items'' (JList []) = Inr (JList items)"
    and "list_all labelled items"
  shows "validate_unmapped_items md st =
     Inr (st\<lparr>validator.warnings := validator.warnings st
            @ (if 10 < length items
               then [''High number of unmapped items ('' @ str_of_nat (length items)
                     @ ''). Check schema coverage.'']
               else [])
            @ map (\<lambda>it. ''Potentially important item unmapped: '' @ [CHR 0x27] @ label_of it @ [CHR 0x27])
                (filter (\<lambda>it. critical (label_of it)) items)\<rparr>)
     \<and> critical ''Total Reserves'' \<and> \<not> critical ''Miscellaneous Note 12''"
proof -
  have "validate_unmapped_items md st =
     Inr (st\<lparr>validator.warnings := validator.warnings st
            @ (if 10 < length items
               then [''High number of unmapped items ('' @ str_of_nat (length items)
                     @ ''). Check schema coverage.'']
               else [])
            @ map (\<lambda>it. ''Potentially important item unmapped: '' @ [CHR 0x27] @ label_of it @ [CHR 0x27])
                (filter (\<lambda>it. critical (label_of it)) items)\<rparr>)"
    using assms(1) unmapped_loop_result[OF assms(2)]
    by (simp add: validate_unmapped_items_def then_do_def unmapped_message_def quoted_def
        high_number_message_def)
  with critical_total_reserves not_critical_note show ?thesis by simp
qed

theorem unmapped_items_warnings_witness:
  "validate_unmapped_items unmapped_schema empty_validator =
     Inr \<lparr>validator.errors = [],
          validator.warnings =
            [''Potentially important item unmapped: '' @ [CHR 0x27] @ ''Total Reserves'' @ [CHR 0x27]]\<rparr>"
proof -
  let ?items = "[JDict [(''label_raw'', JStr ''Total Reserves'')],
                 JDict [(''label_raw'', JStr ''Miscellaneous Note 12'')]]"
  have g: "py_get (dict_get unmapped_schema ''unmapped_items'' (JDict [])) ''items'' (JList [])
      = Inr (JList ?items)"
    by (simp add: unmapped_schema_def dict_get_def)
  have l: "list_all labelled ?items" by simp
  from unmapped_items_warnings[OF g l, of empty_validator]
    critical_total_reserves not_critical_note
  show ?thesis
    by (simp add: empty_validator_def)
qed

text \<open>
  Claim C10. If the representative value of \<^verbatim>\<open>CurrentAssets.TotalCurrentAssets\<close> is 0,
  or the computed sum of the components is 0, the subtotal check emits no warning,
  however far the total and the sum are apart: the guard tests the truth value of both
  numbers.
\<close>

theorem subtotal_zero_no_warning:
  assumes "dict_get md ''CurrentAssets'' (JDict []) = JDict ca"
    and "subtotal_total (JDict ca) = Inr (Some t)"
    and "subtotal_components_sum (JDict ca) = Inr cs"
    and "t = Fin 0 \<or> cs = Fin 0"
  shows "validate_subtotals md st = Inr st"
  using validate_subtotals_result[OF assms(1,2,3), of st] assms(4)
  by (auto simp: subtotal_differs_def ftruthy_def)

theorem subtotal_zero_no_warning_witness:
  "dict_get (subtotal_schema ''0'') ''CurrentAssets'' (JDict []) = JDict (current_assets ''0'') \<and>
   subtotal_total (JDict (current_assets ''0'')) = Inr (Some (Fin 0)) \<and>
   subtotal_components_sum (JDict (current_assets ''0'')) = Inr (Fin 1000) \<and>
   validate_subtotals (subtotal_schema ''0'') empty_validator = Inr empty_validator"
  using subtotal_zero_no_warning[OF subtotal_schema_lookup total_0 components_1000,
      of empty_validator]
    subtotal_schema_lookup[of "''0''"] total_0 components_1000[of "''0''"]
  by simp

end
